theory Spec2Isabelle
  imports Complex_Main "HOL-Library.Word"
begin

section \<open>Data model of \<open>internal/handlers/download.go\<close>\<close>

text \<open>
  Times are nanosecond counts (\<open>time.Time\<close> read on one clock, \<open>time.Duration\<close> an
  \<open>int64\<close> of nanoseconds). \<open>int64\<close> sizes are \<open>int\<close>: the largest value the code
  handles is \<open>1000 * 1024 * 1024\<close>, far from wrap-around.
\<close>

type_synonym byte = "8 word"
type_synonym time = int

definition Second :: int where
  "Second = 1000000000"

definition Hour :: int where
  "Hour = 3600 * Second"

text \<open>
  A \<open>float64\<close> is a finite number or one of the IEEE special values. Every finite
  binary64 value is a rational, and every operation returns the exact result rounded to
  the nearest binary64 value, ties to the even significand (\<open>round64\<close>). The sign of
  zero is not modelled: the only zero divisor the code can produce is the \<open>+0\<close> of a
  zero duration.
\<close>

datatype float64 = Finite rat | PosInf | NegInf | NaN

text \<open>The number of binary digits of a positive integer.\<close>

function bit_length :: "int \<Rightarrow> int" where
  "bit_length k = (if k \<le> 0 then 0 else 1 + bit_length (k div 2))"
  by pat_completeness auto
termination
  by (relation "measure nat") auto

declare bit_length.simps [simp del]

definition pow2 :: "int \<Rightarrow> rat" where
  "pow2 e = (if 0 \<le> e then 2 ^ nat e else 1 / 2 ^ nat (- e))"

text \<open>For \<open>a > 0\<close>, the exponent \<open>e\<close> with \<open>2^e \<le> a < 2^(e+1)\<close>.\<close>

definition ilog2 :: "rat \<Rightarrow> int" where
  "ilog2 a = (if 1 \<le> a then bit_length \<lfloor>a\<rfloor> - 1 else - bit_length (\<lceil>1 / a\<rceil> - 1))"

text \<open>The nearest integer, a tie going to the even one.\<close>

definition round_even :: "rat \<Rightarrow> int" where
  "round_even x =
     (let f = \<lfloor>x\<rfloor>; r = x - of_int f
      in if r < 1 / 2 then f else if 1 / 2 < r then f + 1 else if even f then f else f + 1)"

text \<open>
  Rounding to binary64: a significand of 53 bits at the exponent of the number, the
  exponent not below \<open>-1022\<close> (subnormal numbers share the quantum \<open>2^-1074\<close>), and
  infinity when the rounded value reaches \<open>2^1024\<close>.
\<close>

definition round64 :: "rat \<Rightarrow> float64" where
  "round64 x =
     (if x = 0 then Finite 0
      else
        (let a = \<bar>x\<bar>;
             e = max (ilog2 a) (- 1022);
             q = pow2 (e - 52);
             n = round_even (a / q)
         in if 1024 \<le> e \<or> (e = 1023 \<and> n = 2 ^ 53)
            then (if 0 < x then PosInf else NegInf)
            else Finite (if 0 < x then of_int n * q else - (of_int n * q))))"

text \<open>The conversion \<open>float64(n)\<close> of an \<open>int64\<close>.\<close>

definition float64_of_int :: "int \<Rightarrow> float64" where
  "float64_of_int n = round64 (of_int n)"

fun fadd :: "float64 \<Rightarrow> float64 \<Rightarrow> float64" where
  "fadd (Finite a) (Finite b) = round64 (a + b)"
| "fadd NaN _ = NaN"
| "fadd _ NaN = NaN"
| "fadd PosInf NegInf = NaN"
| "fadd NegInf PosInf = NaN"
| "fadd PosInf _ = PosInf"
| "fadd NegInf _ = NegInf"
| "fadd (Finite a) PosInf = PosInf"
| "fadd (Finite a) NegInf = NegInf"

fun fmul :: "float64 \<Rightarrow> float64 \<Rightarrow> float64" where
  "fmul (Finite a) (Finite b) = round64 (a * b)"
| "fmul NaN _ = NaN"
| "fmul _ NaN = NaN"
| "fmul (Finite a) PosInf = (if a = 0 then NaN else if 0 < a then PosInf else NegInf)"
| "fmul (Finite a) NegInf = (if a = 0 then NaN else if 0 < a then NegInf else PosInf)"
| "fmul PosInf (Finite b) = (if b = 0 then NaN else if 0 < b then PosInf else NegInf)"
| "fmul NegInf (Finite b) = (if b = 0 then NaN else if 0 < b then NegInf else PosInf)"
| "fmul PosInf PosInf = PosInf"
| "fmul PosInf NegInf = NegInf"
| "fmul NegInf PosInf = NegInf"
| "fmul NegInf NegInf = PosInf"

fun fdiv :: "float64 \<Rightarrow> float64 \<Rightarrow> float64" where
  "fdiv (Finite a) (Finite b) =
     (if b \<noteq> 0 then round64 (a / b)
      else if a = 0 then NaN else if 0 < a then PosInf else NegInf)"
| "fdiv NaN _ = NaN"
| "fdiv _ NaN = NaN"
| "fdiv (Finite a) PosInf = Finite 0"
| "fdiv (Finite a) NegInf = Finite 0"
| "fdiv PosInf (Finite b) = (if 0 \<le> b then PosInf else NegInf)"
| "fdiv NegInf (Finite b) = (if 0 \<le> b then NegInf else PosInf)"
| "fdiv PosInf PosInf = NaN"
| "fdiv PosInf NegInf = NaN"
| "fdiv NegInf PosInf = NaN"
| "fdiv NegInf NegInf = NaN"

text \<open>Go's integer \<open>/\<close> and \<open>%\<close>: the quotient truncates towards zero.\<close>

definition quo :: "int \<Rightarrow> int \<Rightarrow> int" where
  "quo a b = sgn a * sgn b * (\<bar>a\<bar> div \<bar>b\<bar>)"

definition rem :: "int \<Rightarrow> int \<Rightarrow> int" where
  "rem a b = sgn a * (\<bar>a\<bar> mod \<bar>b\<bar>)"

text \<open>
  \<open>Duration.Seconds()\<close>:
  \<open>sec := d / Second; nsec := d % Second; return float64(sec) + float64(nsec)/1e9\<close>.
\<close>

definition Seconds :: "int \<Rightarrow> float64" where
  "Seconds d =
     (let sec = quo d Second; nsec = rem d Second
      in fadd (float64_of_int sec) (fdiv (float64_of_int nsec) (Finite 1000000000)))"

text \<open>\<open>var allowedSizes = map[int]int64{...}\<close>\<close>

definition allowedSizes :: "int \<rightharpoonup> int" where
  "allowedSizes = map_of
     [(5, 5 * 1024 * 1024), (10, 10 * 1024 * 1024), (20, 20 * 1024 * 1024),
      (50, 50 * 1024 * 1024), (100, 100 * 1024 * 1024), (200, 200 * 1024 * 1024),
      (500, 500 * 1024 * 1024), (1000, 1000 * 1024 * 1024)]"

record Session =
  FilePath :: string
  ExpectedHash :: string
  HashAlgorithm :: string
  FileSize :: int
  CreatedAt :: time
  DownloadSpeedMbps :: float64

record DownloadHandler =
  sessions :: "string \<rightharpoonup> Session"
  lastAccessMap :: "string \<rightharpoonup> time"

text \<open>\<open>NewDownloadHandler\<close>: two empty maps (the cleanup goroutine is \<open>cleanupTick\<close> below).\<close>

definition NewDownloadHandler :: DownloadHandler where
  "NewDownloadHandler = \<lparr>sessions = Map.empty, lastAccessMap = Map.empty\<rparr>"

record DownloadInitRequest =
  SizeMB :: int

record DownloadVerifyRequest =
  SessionID :: string
  ComputedHash :: string

section \<open>The world outside the handler\<close>

text \<open>
  The files under \<open>tmpdata\<close>, what \<open>log.Printf\<close> has printed, and the sizes of the
  \<open>Write\<close> calls made so far. Whether a system call fails is decided by the world: each
  \<open>*_err\<close> field says for which path (and, for a write, at which file offset) the call
  returns an error. \<open>os.Open\<close> and \<open>os.Remove\<close> also fail on a path that does not exist.
\<close>

datatype io_error = ErrCreate | ErrWrite | ErrOpen | ErrRead | ErrRemove

datatype log_entry =
    LogRateLimitExceeded string
  | LogAccessGranted string
  | LogErrorGenerating io_error
  | LogErrorHashing io_error
  | LogErrorOpening io_error
  | LogDownloadSpeed string float64
  | LogErrorRemoving io_error
  | LogCleaningUp string
  | LogFailedToDelete string io_error

record world =
  files :: "string \<rightharpoonup> byte list"
  create_err :: "string \<Rightarrow> bool"
  write_err :: "string \<Rightarrow> nat \<Rightarrow> bool"
  open_err :: "string \<Rightarrow> bool"
  read_err :: "string \<Rightarrow> bool"
  remove_err :: "string \<Rightarrow> bool"
  logged :: "log_entry list"
  write_sizes :: "nat list"

type_synonym state = "world \<times> DownloadHandler"

definition log_Printf :: "log_entry \<Rightarrow> world \<Rightarrow> world" where
  "log_Printf e w = w\<lparr>logged := logged w @ [e]\<rparr>"

definition os_Create :: "world \<Rightarrow> string \<Rightarrow> io_error + world" where
  "os_Create w path =
     (if create_err w path then Inl ErrCreate
      else Inr (w\<lparr>files := (files w)(path \<mapsto> [])\<rparr>))"

definition f_Write :: "world \<Rightarrow> string \<Rightarrow> byte list \<Rightarrow> io_error + (int \<times> world)" where
  "f_Write w path chunk =
     (case files w path of
        None \<Rightarrow> Inl ErrWrite
      | Some old \<Rightarrow>
          if write_err w path (length old) then Inl ErrWrite
          else Inr (int (length chunk),
                    w\<lparr>files := (files w)(path \<mapsto> old @ chunk),
                      write_sizes := write_sizes w @ [length chunk]\<rparr>))"

definition os_Open :: "world \<Rightarrow> string \<Rightarrow> io_error + string" where
  "os_Open w path =
     (if open_err w path \<or> files w path = None then Inl ErrOpen else Inr path)"

definition read_all :: "world \<Rightarrow> string \<Rightarrow> io_error + byte list" where
  "read_all w f =
     (case files w f of
        None \<Rightarrow> Inl ErrRead
      | Some content \<Rightarrow> if read_err w f then Inl ErrRead else Inr content)"

definition os_Remove :: "world \<Rightarrow> string \<Rightarrow> io_error + world" where
  "os_Remove w path =
     (if remove_err w path \<or> files w path = None then Inl ErrRemove
      else Inr (w\<lparr>files := (files w)(path := None)\<rparr>))"

section \<open>HTTP responses\<close>

datatype body =
    PlainText string
  | InitJSON string int string string
  | VerifyJSON string
  | SpeedJSON string float64
  | Content "byte list"
  | Aborted

type_synonym response = "nat \<times> body"

definition StatusOK :: nat where "StatusOK = 200"
definition StatusBadRequest :: nat where "StatusBadRequest = 400"
definition StatusNotFound :: nat where "StatusNotFound = 404"
definition StatusTooManyRequests :: nat where "StatusTooManyRequests = 429"
definition StatusInternalServerError :: nat where "StatusInternalServerError = 500"

section \<open>Rate limiter\<close>

text \<open>
  \<open>CheckRateLimit\<close>, for the client identity \<open>getClientIP(r)\<close> returned. The clock is read
  twice: \<open>tSince\<close> by \<open>time.Since(lastAccess)\<close> and \<open>tNow\<close> by the \<open>time.Now()\<close> stored
  in the map.
\<close>

definition CheckRateLimit :: "string \<Rightarrow> time \<Rightarrow> time \<Rightarrow> state \<Rightarrow> bool \<times> state" where
  "CheckRateLimit clientIP tSince tNow s =
     (case s of (w, h) \<Rightarrow>
        (case lastAccessMap h clientIP of
           Some lastAccess \<Rightarrow>
             if tSince - lastAccess < 10 * Second
             then (False, log_Printf (LogRateLimitExceeded clientIP) w, h)
             else (True, log_Printf (LogAccessGranted clientIP) w,
                   h\<lparr>lastAccessMap := (lastAccessMap h)(clientIP \<mapsto> tNow)\<rparr>)
         | None \<Rightarrow>
             (True, log_Printf (LogAccessGranted clientIP) w,
              h\<lparr>lastAccessMap := (lastAccessMap h)(clientIP \<mapsto> tNow)\<rparr>)))"

section \<open>Artifact generator\<close>

text \<open>
  What the handler takes from its environment during one \<open>InitDownload\<close>: the clock
  readings, the identifier \<open>uuid.New().String()\<close> returns, the byte stream of
  \<open>math/rand\<close> after \<open>rand.Seed\<close>, and the library function
  \<open>hex.EncodeToString(sha256.Sum(...))\<close>.
\<close>

record env =
  sha256_hex :: "byte list \<Rightarrow> string"
  clock_since :: time
  clock_update :: time
  clock_created :: time
  uuid_New :: string
  rand_bytes :: "nat \<Rightarrow> byte"

text \<open>\<open>rand.Read(buf[:n])\<close> fills \<open>n\<close> bytes from the stream and never fails.\<close>

definition rand_Read :: "nat \<Rightarrow> (nat \<Rightarrow> byte) \<Rightarrow> byte list \<times> (nat \<Rightarrow> byte)" where
  "rand_Read n rng = (map rng [0..<n], \<lambda>i. rng (i + n))"

text \<open>
  The loop of \<open>generateRandomFile\<close>: \<open>for totalWritten < size\<close>. A failed write ends it
  with the error; the bytes written before stay in the file.
\<close>

function writeLoop ::
  "string \<Rightarrow> int \<Rightarrow> int \<Rightarrow> (nat \<Rightarrow> byte) \<Rightarrow> world \<Rightarrow> io_error option \<times> world" where
  "writeLoop path fsize totalWritten rng w =
     (if totalWritten < fsize then
        (let remain = fsize - totalWritten;
             toWrite = (if 1024 * 1024 > remain then remain else 1024 * 1024);
             buf = fst (rand_Read (nat toWrite) rng);
             rng' = snd (rand_Read (nat toWrite) rng)
         in case f_Write w path buf of
              Inl err \<Rightarrow> (Some err, w)
            | Inr nw \<Rightarrow> writeLoop path fsize (totalWritten + fst nw) rng' (snd nw))
      else (None, w))"
  by pat_completeness auto
termination
  by (relation "measure (\<lambda>(path, fsize, totalWritten, rng, w). nat (fsize - totalWritten))")
     (auto simp: f_Write_def rand_Read_def split: option.splits if_splits)

declare writeLoop.simps [simp del]

definition generateRandomFile ::
  "(nat \<Rightarrow> byte) \<Rightarrow> string \<Rightarrow> int \<Rightarrow> world \<Rightarrow> io_error option \<times> world" where
  "generateRandomFile rng path fsize w =
     (case os_Create w path of
        Inl err \<Rightarrow> (Some err, w)
      | Inr w' \<Rightarrow> writeLoop path fsize 0 rng w')"

definition computeFileHash :: "(byte list \<Rightarrow> string) \<Rightarrow> world \<Rightarrow> string \<Rightarrow> io_error + string" where
  "computeFileHash H w path =
     (case os_Open w path of
        Inl err \<Rightarrow> Inl err
      | Inr f \<Rightarrow> (case read_all w f of Inl err \<Rightarrow> Inl err | Inr content \<Rightarrow> Inr (H content)))"

section \<open>The four handlers\<close>

text \<open>
  Each handler is a function from the state before the request to the response and the
  state after it: requests are taken one at a time, the interleavings that \<open>h.mu\<close>
  allows between the locked sections of two requests are not modelled.

  \<open>InitDownload\<close>. The request body is given as the result of decoding it:
  \<open>None\<close> when \<open>Decode\<close> returns an error. Writing the response is not modelled as
  fallible.
\<close>

definition InitDownload ::
  "env \<Rightarrow> string \<Rightarrow> DownloadInitRequest option \<Rightarrow> state \<Rightarrow> response \<times> state" where
  "InitDownload e clientIP reqBody s =
     (case CheckRateLimit clientIP (clock_since e) (clock_update e) s of
        (admitted, w1, h1) \<Rightarrow>
          if \<not> admitted
          then ((StatusTooManyRequests, PlainText ''Rate limit exceeded. Try again later.''), (w1, h1))
          else
            (case reqBody of
               None \<Rightarrow> ((StatusBadRequest, PlainText ''Bad request''), (w1, h1))
             | Some req \<Rightarrow>
                 (case allowedSizes (SizeMB req) of
                    None \<Rightarrow>
                      ((StatusBadRequest,
                        PlainText ''Invalid size requested. Allowed values: 5,10,20,50,100''),
                       (w1, h1))
                  | Some fsize \<Rightarrow>
                      (let sessionID = uuid_New e;
                           filePath = ''tmpdata/'' @ sessionID @ ''.bin''
                       in case generateRandomFile (rand_bytes e) filePath fsize w1 of
                            (Some err, w2) \<Rightarrow>
                              ((StatusInternalServerError, PlainText ''Internal Server Error''),
                               (log_Printf (LogErrorGenerating err) w2, h1))
                          | (None, w2) \<Rightarrow>
                              (case computeFileHash (sha256_hex e) w2 filePath of
                                 Inl err \<Rightarrow>
                                   ((StatusInternalServerError, PlainText ''Internal Server Error''),
                                    (log_Printf (LogErrorHashing err) w2, h1))
                               | Inr expectedHash \<Rightarrow>
                                   ((StatusOK, InitJSON sessionID fsize ''sha256'' expectedHash),
                                    (w2, h1\<lparr>sessions := (sessions h1)(sessionID \<mapsto>
                                       \<lparr>FilePath = filePath, ExpectedHash = expectedHash,
                                        HashAlgorithm = ''sha256'', FileSize = fsize,
                                        CreatedAt = clock_created e,
                                        DownloadSpeedMbps = Finite 0\<rparr>)\<rparr>)))))))"

text \<open>\<open>speedMbps := (float64(sess.FileSize) * 8) / (duration * 1024 * 1024)\<close>\<close>

definition speedMbps :: "int \<Rightarrow> float64 \<Rightarrow> float64" where
  "speedMbps fileSize duration =
     fdiv (fmul (float64_of_int fileSize) (Finite 8))
          (fmul (fmul duration (Finite 1024)) (Finite 1024))"

text \<open>
  \<open>DownloadData\<close>. \<open>startTime\<close> and \<open>endTime\<close> are the two clock readings around
  \<open>http.ServeContent\<close>; \<open>delivered\<close> says whether the stream reached the client whole.
  \<open>ServeContent\<close> returns nothing, so the handler does not see \<open>delivered\<close>.
\<close>

definition DownloadData :: "string \<Rightarrow> time \<Rightarrow> time \<Rightarrow> bool \<Rightarrow> state \<Rightarrow> response \<times> state" where
  "DownloadData sessionID startTime endTime delivered s =
     (case s of (w, h) \<Rightarrow>
        if sessionID = [] then ((StatusBadRequest, PlainText ''session_id is required''), (w, h))
        else
          (case sessions h sessionID of
             None \<Rightarrow> ((StatusNotFound, PlainText ''Invalid session_id''), (w, h))
           | Some sess \<Rightarrow>
               (case os_Open w (FilePath sess) of
                  Inl err \<Rightarrow>
                    ((StatusInternalServerError, PlainText ''Internal Server Error''),
                     (log_Printf (LogErrorOpening err) w, h))
                | Inr f \<Rightarrow>
                    (let duration = Seconds (endTime - startTime);
                         speed = speedMbps (FileSize sess) duration;
                         served = (case read_all w f of
                                     Inr content \<Rightarrow> if delivered then Content content else Aborted
                                   | Inl err \<Rightarrow> Aborted)
                     in ((StatusOK, served),
                         (log_Printf (LogDownloadSpeed sessionID speed) w,
                          h\<lparr>sessions := (sessions h)(sessionID \<mapsto>
                               sess\<lparr>DownloadSpeedMbps := speed\<rparr>)\<rparr>))))))"

definition GetSpeed :: "string \<Rightarrow> state \<Rightarrow> response" where
  "GetSpeed sessionID s =
     (case s of (w, h) \<Rightarrow>
        if sessionID = [] then (StatusBadRequest, PlainText ''session_id is required'')
        else
          (case sessions h sessionID of
             None \<Rightarrow> (StatusNotFound, PlainText ''Invalid session_id'')
           | Some sess \<Rightarrow> (StatusOK, SpeedJSON sessionID (DownloadSpeedMbps sess))))"

definition VerifyDownload :: "DownloadVerifyRequest option \<Rightarrow> state \<Rightarrow> response \<times> state" where
  "VerifyDownload reqBody s =
     (case s of (w, h) \<Rightarrow>
        (case reqBody of
           None \<Rightarrow> ((StatusBadRequest, PlainText ''Bad request''), (w, h))
         | Some req \<Rightarrow>
             (case sessions h (SessionID req) of
                None \<Rightarrow> ((StatusNotFound, PlainText ''Invalid session_id''), (w, h))
              | Some sess \<Rightarrow>
                  if ComputedHash req = ExpectedHash sess then
                    (case os_Remove w (FilePath sess) of
                       Inl err \<Rightarrow>
                         ((StatusInternalServerError, PlainText ''File removal failed''),
                          (log_Printf (LogErrorRemoving err) w, h))
                     | Inr w' \<Rightarrow>
                         ((StatusOK, VerifyJSON ''success''),
                          (w', h\<lparr>sessions := (sessions h)(SessionID req := None)\<rparr>)))
                  else ((StatusBadRequest, PlainText ''Hash mismatch''), (w, h)))))"

section \<open>Cleanup goroutine\<close>

text \<open>
  One tick of \<open>StartCleanup\<close>: \<open>for sessionID, sess := range h.sessions\<close> at the time
  \<open>now\<close>. Go leaves the order of a map range open, so the keys come as a list, in the
  order the runtime yields them.
\<close>

fun cleanupLoop :: "time \<Rightarrow> string list \<Rightarrow> state \<Rightarrow> state" where
  "cleanupLoop now [] s = s"
| "cleanupLoop now (sessionID # rest) (w, h) =
     (case sessions h sessionID of
        None \<Rightarrow> cleanupLoop now rest (w, h)
      | Some sess \<Rightarrow>
          if now - CreatedAt sess > Hour then
            (let w1 = log_Printf (LogCleaningUp sessionID) w;
                 w2 = (case os_Remove w1 (FilePath sess) of
                         Inl err \<Rightarrow> log_Printf (LogFailedToDelete (FilePath sess) err) w1
                       | Inr w' \<Rightarrow> w')
             in cleanupLoop now rest (w2, h\<lparr>sessions := (sessions h)(sessionID := None)\<rparr>))
          else cleanupLoop now rest (w, h))"

definition cleanupTick :: "time \<Rightarrow> string list \<Rightarrow> state \<Rightarrow> state" where
  "cleanupTick now keys s = cleanupLoop now keys s"

section \<open>Vocabulary of the properties\<close>

text \<open>A client calling \<open>DownloadData\<close> for the same session several times in a row.\<close>

fun transfers :: "string \<Rightarrow> (time \<times> time \<times> bool) list \<Rightarrow> state \<Rightarrow> state" where
  "transfers sessionID [] s = s"
| "transfers sessionID ((startTime, endTime, delivered) # rest) s =
     transfers sessionID rest (snd (DownloadData sessionID startTime endTime delivered s))"

text \<open>The condition of the sweep, \<open>now.Sub(sess.CreatedAt) > time.Hour\<close>, for the key \<open>k\<close>.\<close>

definition expired :: "time \<Rightarrow> DownloadHandler \<Rightarrow> string \<Rightarrow> bool" where
  "expired now h k =
     (case sessions h k of None \<Rightarrow> False | Some sess \<Rightarrow> now - CreatedAt sess > Hour)"

text \<open>No create, write, open or read of \<open>path\<close> fails in the world \<open>w\<close>.\<close>

definition no_faults :: "world \<Rightarrow> string \<Rightarrow> bool" where
  "no_faults w path \<longleftrightarrow>
     \<not> create_err w path \<and> (\<forall>n. \<not> write_err w path n) \<and> \<not> open_err w path \<and> \<not> read_err w path"

subsection \<open>Concrete states\<close>

text \<open>A world with no files where no system call fails.\<close>

definition quietWorld :: world where
  "quietWorld = \<lparr>files = Map.empty, create_err = (\<lambda>p. False), write_err = (\<lambda>p n. False),
     open_err = (\<lambda>p. False), read_err = (\<lambda>p. False), remove_err = (\<lambda>p. False),
     logged = [], write_sizes = []\<rparr>"

text \<open>One 5 MiB session \<open>a\<close>, as \<open>InitDownload\<close> registers it, and its artifact.\<close>

definition sessionA :: Session where
  "sessionA = \<lparr>FilePath = ''tmpdata/a.bin'', ExpectedHash = ''ab12'', HashAlgorithm = ''sha256'',
     FileSize = 5 * 1024 * 1024, CreatedAt = 0, DownloadSpeedMbps = Finite 0\<rparr>"

definition worldA :: world where
  "worldA = quietWorld\<lparr>files := [''tmpdata/a.bin'' \<mapsto> replicate (5 * 1024 * 1024) 0]\<rparr>"

definition handlerA :: DownloadHandler where
  "handlerA = \<lparr>sessions = [''a'' \<mapsto> sessionA], lastAccessMap = Map.empty\<rparr>"

text \<open>
  Three sessions: \<open>a\<close> and \<open>b\<close> created at time 0, \<open>c\<close> created 90 minutes later; the
  artifact of \<open>a\<close> cannot be removed.
\<close>

definition sessionB :: Session where
  "sessionB = \<lparr>FilePath = ''tmpdata/b.bin'', ExpectedHash = ''cd34'', HashAlgorithm = ''sha256'',
     FileSize = 5 * 1024 * 1024, CreatedAt = 0, DownloadSpeedMbps = Finite 0\<rparr>"

definition sessionC :: Session where
  "sessionC = \<lparr>FilePath = ''tmpdata/c.bin'', ExpectedHash = ''ef56'', HashAlgorithm = ''sha256'',
     FileSize = 5 * 1024 * 1024, CreatedAt = 5400 * Second, DownloadSpeedMbps = Finite 0\<rparr>"

definition worldB :: world where
  "worldB = quietWorld\<lparr>
     files := [''tmpdata/a.bin'' \<mapsto> replicate (5 * 1024 * 1024) 0,
               ''tmpdata/b.bin'' \<mapsto> replicate (5 * 1024 * 1024) 1,
               ''tmpdata/c.bin'' \<mapsto> replicate (5 * 1024 * 1024) 2],
     remove_err := (\<lambda>p. p = ''tmpdata/a.bin'')\<rparr>"

text \<open>The same three sessions where no removal is refused but the artifact of \<open>a\<close> is missing.\<close>

definition worldC :: world where
  "worldC = quietWorld\<lparr>
     files := [''tmpdata/b.bin'' \<mapsto> replicate (5 * 1024 * 1024) 1,
               ''tmpdata/c.bin'' \<mapsto> replicate (5 * 1024 * 1024) 2]\<rparr>"

definition handlerB :: DownloadHandler where
  "handlerB = \<lparr>sessions = [''a'' \<mapsto> sessionA, ''b'' \<mapsto> sessionB, ''c'' \<mapsto> sessionC],
     lastAccessMap = Map.empty\<rparr>"

text \<open>
  An environment for one \<open>InitDownload\<close> at second 100. The hash function is left
  abstract in the theorems; here it is a fixed function of the length, which is
  enough where no two contents are compared.
\<close>

definition envA :: env where
  "envA = \<lparr>sha256_hex = (\<lambda>bs. replicate (length bs mod 7) CHR ''0''),
     clock_since = 100 * Second, clock_update = 100 * Second, clock_created = 101 * Second,
     uuid_New = ''u1'', rand_bytes = (\<lambda>i. word_of_nat i)\<rparr>"

section \<open>Auxiliary lemmas\<close>


lemmas status_defs = StatusOK_def StatusBadRequest_def StatusNotFound_def
  StatusTooManyRequests_def StatusInternalServerError_def

text \<open>Evaluating the float operations on numerals.\<close>

lemma bit_length_numeral: "bit_length (numeral n) = 1 + bit_length (numeral n div 2)"
  by (subst bit_length.simps) simp

lemma bit_length_0: "bit_length 0 = 0"
  by (subst bit_length.simps) simp

lemma bit_length_1: "bit_length 1 = 1"
  by (subst bit_length.simps) (simp add: bit_length_0)

lemma floor_rat_numeral: "\<lfloor>numeral a / (numeral b :: rat)\<rfloor> = numeral a div numeral b"
  using floor_divide_of_int_eq[of "numeral a" "numeral b", where ?'a = rat] by simp

lemma ceiling_rat_numeral: "\<lceil>numeral a / (numeral b :: rat)\<rceil> = - (- numeral a div numeral b)"
  using floor_divide_of_int_eq[of "- numeral a" "numeral b", where ?'a = rat]
  by (simp add: ceiling_def)

lemmas float_eval = round64_def ilog2_def round_even_def pow2_def bit_length_numeral
  bit_length_0 bit_length_1 floor_rat_numeral ceiling_rat_numeral float64_of_int_def
  Seconds_def speedMbps_def quo_def rem_def Second_def Let_def

lemma round64_samples:
  "round64 (1 / 10) = Finite (3602879701896397 / 36028797018963968)"
  "round64 (40 / 3) = Finite (7505999378950827 / 562949953421312)"
  "round64 (2 ^ 53 + 1) = Finite (2 ^ 53)"
  "round64 (2 ^ 53 + 3) = Finite (2 ^ 53 + 4)"
  "round64 (- (1 / 3)) = Finite (- (6004799503160661 / 18014398509481984))"
  by (simp_all add: float_eval)

lemma Seconds_samples:
  "Seconds 0 = Finite 0"
  "Seconds 1 = Finite (4835703278458517 / 4835703278458516698824704)"
  "Seconds 1500000000 = Finite (3 / 2)"
  "Seconds (- 1500000000) = Finite (- (3 / 2))"
  by (simp_all add: float_eval)

lemma allowedSizes_Some:
  "allowedSizes sel = Some sz \<Longrightarrow> sz = sel * 1024 * 1024 \<and> 0 < sz"
  by (auto simp: allowedSizes_def split: if_splits)


lemma writeLoop_done: "\<not> tw < sz \<Longrightarrow> writeLoop path sz tw rng w = (None, w)"
  by (subst writeLoop.simps) simp

lemma writeLoop_step:
  "tw < sz \<Longrightarrow> k = nat (min (sz - tw) (1024 * 1024)) \<Longrightarrow>
   writeLoop path sz tw rng w =
     (case f_Write w path (map rng [0..<k]) of
        Inl err \<Rightarrow> (Some err, w)
      | Inr nw \<Rightarrow> writeLoop path sz (tw + fst nw) (\<lambda>i. rng (i + k)) (snd nw))"
  by (subst writeLoop.simps) (simp add: Let_def rand_Read_def min_def split: sum.splits)

lemma writeLoop_result:
  "writeLoop path sz tw rng w = (None, w') \<Longrightarrow> files w path = Some old \<Longrightarrow>
   \<exists>new cs. w' = w\<lparr>files := (files w)(path \<mapsto> old @ new), write_sizes := write_sizes w @ cs\<rparr>
      \<and> int (length new) = max 0 (sz - tw)
      \<and> (\<forall>c\<in>set cs. 0 < c \<and> c \<le> 1024 * 1024) \<and> sum_list cs = length new"
proof (induction "nat (sz - tw)" arbitrary: tw rng w old rule: less_induct)
  case less
  show ?case
  proof (cases "tw < sz")
    case False
    with less.prems have "w' = w" by (simp add: writeLoop_done)
    moreover have "w\<lparr>files := (files w)(path \<mapsto> old @ []), write_sizes := write_sizes w @ []\<rparr> = w"
      using less.prems(2) by (simp add: fun_upd_idem)
    ultimately show ?thesis using False
      by (intro exI[of _ "[]"]) simp
  next
    case True
    define k where "k = nat (min (sz - tw) (1024 * 1024))"
    define buf where "buf = map rng [0..<k]"
    have k: "0 < k" "k \<le> 1024 * 1024" "int k \<le> sz - tw" "length buf = k"
      using True by (auto simp: k_def buf_def)
    show ?thesis
    proof (cases "write_err w path (length old)")
      case True
      with \<open>tw < sz\<close> less.prems show ?thesis
        by (simp add: writeLoop_step[OF _ refl] f_Write_def)
    next
      case False
      define w1 where "w1 = w\<lparr>files := (files w)(path \<mapsto> old @ buf),
                                write_sizes := write_sizes w @ [k]\<rparr>"
      have fw: "f_Write w path buf = Inr (int k, w1)"
        using False less.prems(2) k by (simp add: f_Write_def w1_def)
      have run: "writeLoop path sz (tw + int k) (\<lambda>i. rng (i + k)) w1 = (None, w')"
        using less.prems(1) fw unfolding writeLoop_step[OF True k_def] buf_def[symmetric]
        by simp
      have f1: "files w1 path = Some (old @ buf)" by (simp add: w1_def)
      have "nat (sz - (tw + int k)) < nat (sz - tw)" using k True by linarith
      from less.hyps[OF this run f1]
      obtain new cs where
        w': "w' = w1\<lparr>files := (files w1)(path \<mapsto> (old @ buf) @ new),
                      write_sizes := write_sizes w1 @ cs\<rparr>"
        and len: "int (length new) = max 0 (sz - (tw + int k))"
        and cs: "\<forall>c\<in>set cs. 0 < c \<and> c \<le> 1024 * 1024" "sum_list cs = length new"
        by blast
      have "w' = w\<lparr>files := (files w)(path \<mapsto> old @ (buf @ new)),
                    write_sizes := write_sizes w @ (k # cs)\<rparr>"
        by (simp add: w' w1_def)
      moreover have "int (length (buf @ new)) = max 0 (sz - tw)"
        using len k by simp
      moreover have "\<forall>c\<in>set (k # cs). 0 < c \<and> c \<le> 1024 * 1024"
        using cs k by simp
      moreover have "sum_list (k # cs) = length (buf @ new)"
        using cs k by simp
      ultimately show ?thesis by blast
    qed
  qed
qed

lemma writeLoop_succeeds:
  "files w path = Some old \<Longrightarrow> \<forall>n. \<not> write_err w path n \<Longrightarrow>
   fst (writeLoop path sz tw rng w) = None"
proof (induction "nat (sz - tw)" arbitrary: tw rng w old rule: less_induct)
  case less
  show ?case
  proof (cases "tw < sz")
    case False
    then show ?thesis by (simp add: writeLoop_done)
  next
    case True
    define k where "k = nat (min (sz - tw) (1024 * 1024))"
    define buf where "buf = map rng [0..<k]"
    define w1 where "w1 = w\<lparr>files := (files w)(path \<mapsto> old @ buf),
                              write_sizes := write_sizes w @ [k]\<rparr>"
    have k: "0 < k" "length buf = k" using True by (auto simp: k_def buf_def)
    have fw: "f_Write w path buf = Inr (int k, w1)"
      using less.prems k by (simp add: f_Write_def w1_def)
    have dec: "nat (sz - (tw + int k)) < nat (sz - tw)" using k True by linarith
    have "fst (writeLoop path sz (tw + int k) (\<lambda>i. rng (i + k)) w1) = None"
      by (rule less.hyps[OF dec, of w1 "old @ buf"]) (use less.prems in \<open>simp_all add: w1_def\<close>)
    then show ?thesis using fw unfolding writeLoop_step[OF True k_def] buf_def[symmetric]
      by simp
  qed
qed


lemma generateRandomFile_result:
  assumes "generateRandomFile rng path sz w = (None, w')" and "0 \<le> sz"
  shows "\<exists>content cs. w' = w\<lparr>files := (files w)(path \<mapsto> content),
                                write_sizes := write_sizes w @ cs\<rparr>
      \<and> int (length content) = sz
      \<and> (\<forall>c\<in>set cs. 0 < c \<and> c \<le> 1024 * 1024) \<and> sum_list cs = length content"
proof -
  define w0 where "w0 = w\<lparr>files := (files w)(path \<mapsto> [])\<rparr>"
  from assms(1) have run: "writeLoop path sz 0 rng w0 = (None, w')"
    by (simp add: generateRandomFile_def os_Create_def w0_def split: if_splits)
  have "files w0 path = Some []" by (simp add: w0_def)
  from writeLoop_result[OF run this] obtain new cs where
    "w' = w0\<lparr>files := (files w0)(path \<mapsto> [] @ new), write_sizes := write_sizes w0 @ cs\<rparr>"
    "int (length new) = max 0 (sz - 0)"
    "\<forall>c\<in>set cs. 0 < c \<and> c \<le> 1024 * 1024" "sum_list cs = length new"
    by blast
  then show ?thesis using assms(2)
    by (intro exI[of _ new] exI[of _ cs]) (simp add: w0_def)
qed

lemma generateRandomFile_succeeds:
  "\<not> create_err w path \<Longrightarrow> \<forall>n. \<not> write_err w path n \<Longrightarrow>
   fst (generateRandomFile rng path sz w) = None"
  by (simp add: generateRandomFile_def os_Create_def writeLoop_succeeds[of _ _ "[]"])

lemma computeFileHash_result:
  "computeFileHash H w path = Inr hash \<Longrightarrow> \<exists>content. files w path = Some content \<and> hash = H content"
  by (auto simp: computeFileHash_def os_Open_def read_all_def split: if_splits option.splits sum.splits)

lemma computeFileHash_succeeds:
  "files w path = Some content \<Longrightarrow> \<not> open_err w path \<Longrightarrow> \<not> read_err w path \<Longrightarrow>
   computeFileHash H w path = Inr (H content)"
  by (simp add: computeFileHash_def os_Open_def read_all_def)



lemma InitDownload_denied:
  "CheckRateLimit ip (clock_since e) (clock_update e) (w, h) = (False, w1, h1) \<Longrightarrow>
   InitDownload e ip reqBody (w, h) =
     ((StatusTooManyRequests, PlainText ''Rate limit exceeded. Try again later.''), (w1, h1))"
  by (simp add: InitDownload_def)

lemma InitDownload_bad_body:
  "CheckRateLimit ip (clock_since e) (clock_update e) (w, h) = (True, w1, h1) \<Longrightarrow>
   InitDownload e ip None (w, h) = ((StatusBadRequest, PlainText ''Bad request''), (w1, h1))"
  by (simp add: InitDownload_def)

lemma InitDownload_bad_size:
  "CheckRateLimit ip (clock_since e) (clock_update e) (w, h) = (True, w1, h1) \<Longrightarrow>
   allowedSizes (SizeMB req) = None \<Longrightarrow>
   InitDownload e ip (Some req) (w, h) =
     ((StatusBadRequest, PlainText ''Invalid size requested. Allowed values: 5,10,20,50,100''),
      (w1, h1))"
  by (simp add: InitDownload_def)

lemma InitDownload_generate_failed:
  "CheckRateLimit ip (clock_since e) (clock_update e) (w, h) = (True, w1, h1) \<Longrightarrow>
   allowedSizes (SizeMB req) = Some sz \<Longrightarrow>
   generateRandomFile (rand_bytes e) (''tmpdata/'' @ uuid_New e @ ''.bin'') sz w1 = (Some err, w2) \<Longrightarrow>
   InitDownload e ip (Some req) (w, h) =
     ((StatusInternalServerError, PlainText ''Internal Server Error''),
      (log_Printf (LogErrorGenerating err) w2, h1))"
  by (simp add: InitDownload_def Let_def)

lemma InitDownload_hash_failed:
  "CheckRateLimit ip (clock_since e) (clock_update e) (w, h) = (True, w1, h1) \<Longrightarrow>
   allowedSizes (SizeMB req) = Some sz \<Longrightarrow>
   generateRandomFile (rand_bytes e) (''tmpdata/'' @ uuid_New e @ ''.bin'') sz w1 = (None, w2) \<Longrightarrow>
   computeFileHash (sha256_hex e) w2 (''tmpdata/'' @ uuid_New e @ ''.bin'') = Inl err \<Longrightarrow>
   InitDownload e ip (Some req) (w, h) =
     ((StatusInternalServerError, PlainText ''Internal Server Error''),
      (log_Printf (LogErrorHashing err) w2, h1))"
  by (simp add: InitDownload_def Let_def)

lemma InitDownload_registered:
  "CheckRateLimit ip (clock_since e) (clock_update e) (w, h) = (True, w1, h1) \<Longrightarrow>
   allowedSizes (SizeMB req) = Some sz \<Longrightarrow>
   generateRandomFile (rand_bytes e) (''tmpdata/'' @ uuid_New e @ ''.bin'') sz w1 = (None, w2) \<Longrightarrow>
   computeFileHash (sha256_hex e) w2 (''tmpdata/'' @ uuid_New e @ ''.bin'') = Inr hash \<Longrightarrow>
   InitDownload e ip (Some req) (w, h) =
     ((StatusOK, InitJSON (uuid_New e) sz ''sha256'' hash),
      (w2, h1\<lparr>sessions := (sessions h1)(uuid_New e \<mapsto>
             \<lparr>FilePath = ''tmpdata/'' @ uuid_New e @ ''.bin'', ExpectedHash = hash,
              HashAlgorithm = ''sha256'', FileSize = sz, CreatedAt = clock_created e,
              DownloadSpeedMbps = Finite 0\<rparr>)\<rparr>))"
  by (simp add: InitDownload_def Let_def)



lemma InitDownload_success_shape:
  assumes ok: "fst (fst (InitDownload e ip reqBody (w, h))) = StatusOK"
  shows "\<exists>req sz content cs w1 h1.
      reqBody = Some req \<and> allowedSizes (SizeMB req) = Some sz
    \<and> CheckRateLimit ip (clock_since e) (clock_update e) (w, h) = (True, w1, h1)
    \<and> int (length content) = sz
    \<and> (\<forall>c\<in>set cs. 0 < c \<and> c \<le> 1024 * 1024) \<and> sum_list cs = length content
    \<and> InitDownload e ip reqBody (w, h) =
        ((StatusOK, InitJSON (uuid_New e) sz ''sha256'' (sha256_hex e content)),
         (w1\<lparr>files := (files w1)(''tmpdata/'' @ uuid_New e @ ''.bin'' \<mapsto> content),
             write_sizes := write_sizes w1 @ cs\<rparr>,
          h1\<lparr>sessions := (sessions h1)(uuid_New e \<mapsto>
               \<lparr>FilePath = ''tmpdata/'' @ uuid_New e @ ''.bin'',
                ExpectedHash = sha256_hex e content, HashAlgorithm = ''sha256'',
                FileSize = sz, CreatedAt = clock_created e,
                DownloadSpeedMbps = Finite 0\<rparr>)\<rparr>))"
proof -
  define p where "p = ''tmpdata/'' @ uuid_New e @ ''.bin''"
  obtain adm w1 h1 where crl0:
    "CheckRateLimit ip (clock_since e) (clock_update e) (w, h) = (adm, w1, h1)"
    by (metis prod.collapse)
  have adm: "adm"
  proof (rule ccontr)
    assume "\<not> adm"
    with crl0 have "CheckRateLimit ip (clock_since e) (clock_update e) (w, h) = (False, w1, h1)"
      by simp
    from InitDownload_denied[OF this, of reqBody] ok show False
      by (simp add: status_defs)
  qed
  with crl0 have crl: "CheckRateLimit ip (clock_since e) (clock_update e) (w, h) = (True, w1, h1)"
    by simp
  obtain req where req: "reqBody = Some req"
  proof (cases reqBody)
    case None
    with InitDownload_bad_body[OF crl] ok show ?thesis by (simp add: status_defs)
  qed blast
  obtain sz where sz: "allowedSizes (SizeMB req) = Some sz"
  proof (cases "allowedSizes (SizeMB req)")
    case None
    with InitDownload_bad_size[OF crl] ok req show ?thesis by (simp add: status_defs)
  qed blast
  obtain r w2 where gen0: "generateRandomFile (rand_bytes e) p sz w1 = (r, w2)"
    by (metis prod.collapse)
  have r: "r = None"
  proof (cases r)
    case (Some err)
    with InitDownload_generate_failed[OF crl sz, of err w2] gen0 ok req show ?thesis
      by (simp add: status_defs p_def)
  qed simp
  with gen0 have gen: "generateRandomFile (rand_bytes e) p sz w1 = (None, w2)" by simp
  obtain hash where hash: "computeFileHash (sha256_hex e) w2 p = Inr hash"
  proof (cases "computeFileHash (sha256_hex e) w2 p")
    case (Inl err)
    with InitDownload_hash_failed[OF crl sz, of w2 err] gen ok req show ?thesis
      by (simp add: status_defs p_def)
  qed blast
  from allowedSizes_Some[OF sz] have "0 \<le> sz" by simp
  from generateRandomFile_result[OF gen this] obtain content cs where
    w2: "w2 = w1\<lparr>files := (files w1)(p \<mapsto> content), write_sizes := write_sizes w1 @ cs\<rparr>"
    and len: "int (length content) = sz"
    and cs: "\<forall>c\<in>set cs. 0 < c \<and> c \<le> 1024 * 1024" "sum_list cs = length content"
    by blast
  from computeFileHash_result[OF hash] w2 have h: "hash = sha256_hex e content"
    by auto
  have "InitDownload e ip reqBody (w, h) =
        ((StatusOK, InitJSON (uuid_New e) sz ''sha256'' hash),
         (w2, h1\<lparr>sessions := (sessions h1)(uuid_New e \<mapsto>
               \<lparr>FilePath = p, ExpectedHash = hash, HashAlgorithm = ''sha256'',
                FileSize = sz, CreatedAt = clock_created e,
                DownloadSpeedMbps = Finite 0\<rparr>)\<rparr>))"
    using InitDownload_registered[OF crl sz, of w2 hash] gen hash req
    by (simp add: p_def)
  with crl req sz len cs show ?thesis
    unfolding w2 h p_def by blast
qed

lemma InitDownload_succeeds:
  assumes adm: "fst (CheckRateLimit ip (clock_since e) (clock_update e) (w, h))"
    and req: "allowedSizes (SizeMB req) = Some sz"
    and nf: "no_faults w (''tmpdata/'' @ uuid_New e @ ''.bin'')"
  shows "fst (fst (InitDownload e ip (Some req) (w, h))) = StatusOK"
proof -
  define p where "p = ''tmpdata/'' @ uuid_New e @ ''.bin''"
  obtain w1 h1 where crl:
    "CheckRateLimit ip (clock_since e) (clock_update e) (w, h) = (True, w1, h1)"
    using adm by (metis prod.collapse)
  have w1: "create_err w1 = create_err w" "write_err w1 = write_err w"
    "open_err w1 = open_err w" "read_err w1 = read_err w"
    using crl by (auto simp: CheckRateLimit_def log_Printf_def split: option.splits if_splits)
  obtain r w2 where gen0: "generateRandomFile (rand_bytes e) p sz w1 = (r, w2)"
    by (metis prod.collapse)
  have "fst (generateRandomFile (rand_bytes e) p sz w1) = None"
    using nf by (intro generateRandomFile_succeeds) (simp_all add: no_faults_def w1 p_def)
  with gen0 have gen: "generateRandomFile (rand_bytes e) p sz w1 = (None, w2)" by simp
  from allowedSizes_Some[OF req] have "0 \<le> sz" by simp
  from generateRandomFile_result[OF gen this] obtain content cs where
    w2: "w2 = w1\<lparr>files := (files w1)(p \<mapsto> content), write_sizes := write_sizes w1 @ cs\<rparr>"
    by blast
  have "computeFileHash (sha256_hex e) w2 p = Inr (sha256_hex e content)"
    using nf by (intro computeFileHash_succeeds) (simp_all add: w2 w1 no_faults_def p_def)
  from InitDownload_registered[OF crl req gen[unfolded p_def] this[unfolded p_def]]
  show ?thesis by simp
qed




lemma cleanupLoop_sessions:
  "sessions (snd (cleanupLoop now keys (w, h))) k =
     (if k \<in> set keys \<and> expired now h k then None else sessions h k)"
  by (induction keys arbitrary: w h)
     (auto simp: Let_def expired_def split: option.splits)

lemma cleanupLoop_log_mono:
  "set (logged w) \<subseteq> set (logged (fst (cleanupLoop now keys (w, h))))"
proof (induction keys arbitrary: w h)
  case Nil
  show ?case by simp
next
  case (Cons k keys)
  show ?case
  proof (cases "sessions h k")
    case None
    then show ?thesis using Cons.IH[of w h] by simp
  next
    case (Some sess)
    show ?thesis
    proof (cases "now - CreatedAt sess > Hour")
      case False
      then show ?thesis using Some Cons.IH[of w h] by simp
    next
      case True
      define w2 where "w2 = (case os_Remove (log_Printf (LogCleaningUp k) w) (FilePath sess) of
             Inl err \<Rightarrow> log_Printf (LogFailedToDelete (FilePath sess) err) (log_Printf (LogCleaningUp k) w)
           | Inr w' \<Rightarrow> w')"
      have "set (logged w) \<subseteq> set (logged w2)"
        by (auto simp: w2_def log_Printf_def os_Remove_def)
      moreover have "cleanupLoop now (k # keys) (w, h) =
          cleanupLoop now keys (w2, h\<lparr>sessions := (sessions h)(k := None)\<rparr>)"
        using Some True by (simp add: Let_def w2_def)
      ultimately show ?thesis
        using Cons.IH[of w2 "h\<lparr>sessions := (sessions h)(k := None)\<rparr>"] by auto
    qed
  qed
qed

lemma cleanupLoop_append:
  "cleanupLoop now (xs @ ys) s = cleanupLoop now ys (cleanupLoop now xs s)"
proof (induction xs arbitrary: s)
  case Nil
  show ?case by simp
next
  case (Cons a xs)
  obtain w h where s: "s = (w, h)" by (cases s)
  show ?case
    unfolding s using Cons.IH
    by (simp add: Let_def split: option.splits)
qed

lemma cleanupLoop_failure_logged:
  "k \<in> set keys \<Longrightarrow> sessions h k = Some sess \<Longrightarrow> now - CreatedAt sess > Hour \<Longrightarrow>
   remove_err w (FilePath sess) \<or> files w (FilePath sess) = None \<Longrightarrow>
   LogFailedToDelete (FilePath sess) ErrRemove \<in> set (logged (fst (cleanupLoop now keys (w, h))))"
proof (induction keys arbitrary: w h)
  case Nil
  then show ?case by simp
next
  case (Cons a keys)
  show ?case
  proof (cases "a = k")
    case True
    define w2 where "w2 = log_Printf (LogFailedToDelete (FilePath sess) ErrRemove)
                            (log_Printf (LogCleaningUp k) w)"
    have step: "cleanupLoop now (a # keys) (w, h) =
          cleanupLoop now keys (w2, h\<lparr>sessions := (sessions h)(k := None)\<rparr>)"
      using Cons.prems True by (auto simp: Let_def w2_def os_Remove_def log_Printf_def)
    have "LogFailedToDelete (FilePath sess) ErrRemove \<in> set (logged w2)"
      by (simp add: w2_def log_Printf_def)
    then show ?thesis
      using cleanupLoop_log_mono[of w2 now keys "h\<lparr>sessions := (sessions h)(k := None)\<rparr>"] step
      by auto
  next
    case False
    with Cons.prems have kin: "k \<in> set keys" by simp
    show ?thesis
    proof (cases "sessions h a")
      case None
      then show ?thesis using Cons.IH[OF kin Cons.prems(2,3,4)] by simp
    next
      case (Some sa)
      show ?thesis
      proof (cases "now - CreatedAt sa > Hour")
        case F: False
        then show ?thesis using Some Cons.IH[OF kin Cons.prems(2,3,4)] by simp
      next
        case T: True
        define w2 where "w2 = (case os_Remove (log_Printf (LogCleaningUp a) w) (FilePath sa) of
             Inl err \<Rightarrow> log_Printf (LogFailedToDelete (FilePath sa) err) (log_Printf (LogCleaningUp a) w)
           | Inr w' \<Rightarrow> w')"
        define h2 where "h2 = h\<lparr>sessions := (sessions h)(a := None)\<rparr>"
        have step: "cleanupLoop now (a # keys) (w, h) = cleanupLoop now keys (w2, h2)"
          using Some T by (simp add: Let_def w2_def h2_def)
        have "sessions h2 k = Some sess" using False Cons.prems(2) by (simp add: h2_def)
        moreover have "remove_err w2 (FilePath sess) \<or> files w2 (FilePath sess) = None"
          using Cons.prems(4) by (auto simp: w2_def log_Printf_def os_Remove_def)
        ultimately show ?thesis
          using Cons.IH[OF kin _ Cons.prems(3), of h2 w2] step by simp
      qed
    qed
  qed
qed

lemma cleanupLoop_failed_step:
  assumes "cleanupLoop now pre (w, h) = (w', h')"
    and "sessions h' k = Some sess" and "now - CreatedAt sess > Hour"
    and "os_Remove (log_Printf (LogCleaningUp k) w') (FilePath sess) = Inl err"
  shows "cleanupLoop now (pre @ k # post) (w, h) =
           cleanupLoop now post
             (log_Printf (LogFailedToDelete (FilePath sess) err) (log_Printf (LogCleaningUp k) w'),
              h'\<lparr>sessions := (sessions h')(k := None)\<rparr>)"
  using assms by (simp add: cleanupLoop_append Let_def)

lemma cleanupLoop_files:
  "files (fst (cleanupLoop now keys (w, h))) p =
     (if (\<exists>k\<in>set keys. \<exists>sess. sessions h k = Some sess \<and> now - CreatedAt sess > Hour
            \<and> FilePath sess = p) \<and> \<not> remove_err w p
      then None else files w p)"
proof (induction keys arbitrary: w h)
  case Nil
  show ?case by simp
next
  case (Cons a keys)
  show ?case
  proof (cases "sessions h a")
    case None
    then show ?thesis using Cons.IH[of w h] by auto
  next
    case (Some sa)
    show ?thesis
    proof (cases "now - CreatedAt sa > Hour")
      case False
      then show ?thesis using Some Cons.IH[of w h] by auto
    next
      case True
      define w2 where "w2 = (case os_Remove (log_Printf (LogCleaningUp a) w) (FilePath sa) of
             Inl err \<Rightarrow> log_Printf (LogFailedToDelete (FilePath sa) err) (log_Printf (LogCleaningUp a) w)
           | Inr w' \<Rightarrow> w')"
      define h2 where "h2 = h\<lparr>sessions := (sessions h)(a := None)\<rparr>"
      have step: "cleanupLoop now (a # keys) (w, h) = cleanupLoop now keys (w2, h2)"
        using Some True by (simp add: Let_def w2_def h2_def)
      have re: "remove_err w2 = remove_err w"
        by (auto simp: w2_def log_Printf_def os_Remove_def)
      have f2: "files w2 p = (if FilePath sa = p \<and> \<not> remove_err w p then None else files w p)"
        by (auto simp: w2_def log_Printf_def os_Remove_def)
      have s2: "\<And>k. sessions h2 k = (if k = a then None else sessions h k)"
        by (simp add: h2_def)
      show ?thesis
        unfolding step Cons.IH[of w2 h2] re f2 s2
        using Some True by auto
    qed
  qed
qed


lemma DownloadData_step:
  assumes "sessions h sid = Some sess"
  shows "\<exists>v l. snd (DownloadData sid t0 t1 d (w, h)) =
           (w\<lparr>logged := l\<rparr>, h\<lparr>sessions := (sessions h)(sid \<mapsto> sess\<lparr>DownloadSpeedMbps := v\<rparr>)\<rparr>)"
proof (cases "sid = [] \<or> os_Open w (FilePath sess) = Inl ErrOpen")
  case True
  have "(sessions h)(sid \<mapsto> sess\<lparr>DownloadSpeedMbps := DownloadSpeedMbps sess\<rparr>) = sessions h"
    using assms by (simp add: fun_upd_idem)
  then have "h\<lparr>sessions := (sessions h)(sid \<mapsto> sess\<lparr>DownloadSpeedMbps := DownloadSpeedMbps sess\<rparr>)\<rparr> = h"
    by simp
  moreover have "\<exists>l. fst (snd (DownloadData sid t0 t1 d (w, h))) = w\<lparr>logged := l\<rparr>
      \<and> snd (snd (DownloadData sid t0 t1 d (w, h))) = h"
    using True assms
    by (auto simp: DownloadData_def log_Printf_def intro: exI[of _ "logged w"])
  ultimately show ?thesis
    by (metis prod.collapse)
next
  case False
  then show ?thesis using assms
    by (auto simp: DownloadData_def log_Printf_def os_Open_def Let_def split: if_splits)
qed


lemma transfers_frame:
  "sessions h sid = Some sess \<Longrightarrow>
   \<exists>v l. transfers sid ts (w, h) =
     (w\<lparr>logged := l\<rparr>, h\<lparr>sessions := (sessions h)(sid \<mapsto> sess\<lparr>DownloadSpeedMbps := v\<rparr>)\<rparr>)"
proof (induction ts arbitrary: w h sess)
  case Nil
  have "h\<lparr>sessions := (sessions h)(sid \<mapsto> sess\<lparr>DownloadSpeedMbps := DownloadSpeedMbps sess\<rparr>)\<rparr> = h"
    using Nil by (simp add: fun_upd_idem)
  moreover have "w\<lparr>logged := logged w\<rparr> = w" by simp
  ultimately show ?case by (metis transfers.simps(1))
next
  case (Cons x ts)
  obtain t0 t1 d where x: "x = (t0, t1, d)" by (cases x)
  from DownloadData_step[OF Cons.prems, of t0 t1 d w]
  obtain v1 l1 where step: "snd (DownloadData sid t0 t1 d (w, h)) =
      (w\<lparr>logged := l1\<rparr>, h\<lparr>sessions := (sessions h)(sid \<mapsto> sess\<lparr>DownloadSpeedMbps := v1\<rparr>)\<rparr>)"
    by blast
  let ?h1 = "h\<lparr>sessions := (sessions h)(sid \<mapsto> sess\<lparr>DownloadSpeedMbps := v1\<rparr>)\<rparr>"
  have "sessions ?h1 sid = Some (sess\<lparr>DownloadSpeedMbps := v1\<rparr>)" by simp
  from Cons.IH[OF this, of "w\<lparr>logged := l1\<rparr>"]
  obtain v l where "transfers sid ts (w\<lparr>logged := l1\<rparr>, ?h1) =
     (w\<lparr>logged := l1\<rparr>\<lparr>logged := l\<rparr>,
      ?h1\<lparr>sessions := (sessions ?h1)(sid \<mapsto> sess\<lparr>DownloadSpeedMbps := v1\<rparr>\<lparr>DownloadSpeedMbps := v\<rparr>)\<rparr>)"
    by blast
  then have "transfers sid (x # ts) (w, h) =
     (w\<lparr>logged := l\<rparr>, h\<lparr>sessions := (sessions h)(sid \<mapsto> sess\<lparr>DownloadSpeedMbps := v\<rparr>)\<rparr>)"
    using step x by simp
  then show ?case by blast
qed

lemma DownloadData_response_frame:
  "fst (DownloadData sid t0 t1 d
         (w\<lparr>logged := l\<rparr>, h\<lparr>sessions := (sessions h)(sid \<mapsto> sess\<lparr>DownloadSpeedMbps := v\<rparr>)\<rparr>))
   = fst (DownloadData sid t0 t1 d (w, h\<lparr>sessions := (sessions h)(sid \<mapsto> sess)\<rparr>))"
  by (simp add: DownloadData_def os_Open_def read_all_def Let_def split: option.splits)

section \<open>Properties of the rate limiter\<close>

text \<open>
  Claim C6. For every client identity, \<open>CheckRateLimit\<close> admits if and only if the
  identity has no entry in \<open>lastAccessMap\<close> or its entry is at least the 10-second cooldown
  old (\<open>time.Since(lastAccess) < 10*time.Second\<close> denies). On admission the entry is set
  to the current time; on denial the map is not modified, so a later call made once the
  cooldown has elapsed is admitted. Sessions and files are not touched.
\<close>

theorem CheckRateLimit_admits_iff:
  "(fst (CheckRateLimit ip tSince tNow (w, h)) \<longleftrightarrow>
      (lastAccessMap h ip = None \<or>
       (\<exists>last. lastAccessMap h ip = Some last \<and> 10 * Second \<le> tSince - last)))
   \<and> lastAccessMap (snd (snd (CheckRateLimit ip tSince tNow (w, h)))) =
       (if fst (CheckRateLimit ip tSince tNow (w, h))
        then (lastAccessMap h)(ip \<mapsto> tNow) else lastAccessMap h)
   \<and> sessions (snd (snd (CheckRateLimit ip tSince tNow (w, h)))) = sessions h
   \<and> files (fst (snd (CheckRateLimit ip tSince tNow (w, h)))) = files w
   \<and> (\<not> fst (CheckRateLimit ip tSince tNow (w, h)) \<longrightarrow>
        (\<forall>last tLater tNow'. lastAccessMap h ip = Some last \<longrightarrow> 10 * Second \<le> tLater - last \<longrightarrow>
           fst (CheckRateLimit ip tLater tNow' (snd (CheckRateLimit ip tSince tNow (w, h))))))"
  by (auto simp: CheckRateLimit_def log_Printf_def split: option.splits)

text \<open>
  Two calls 3 seconds apart and a third 10 seconds after the first: admitted, denied,
  admitted.
\<close>

theorem CheckRateLimit_admits_iff_witness:
  "fst (CheckRateLimit ''10.0.0.1'' (100 * Second) (100 * Second) (quietWorld, NewDownloadHandler))
   \<and> \<not> fst (CheckRateLimit ''10.0.0.1'' (103 * Second) (103 * Second)
          (snd (CheckRateLimit ''10.0.0.1'' (100 * Second) (100 * Second)
                 (quietWorld, NewDownloadHandler))))
   \<and> fst (CheckRateLimit ''10.0.0.1'' (110 * Second) (110 * Second)
        (snd (CheckRateLimit ''10.0.0.1'' (103 * Second) (103 * Second)
          (snd (CheckRateLimit ''10.0.0.1'' (100 * Second) (100 * Second)
                 (quietWorld, NewDownloadHandler))))))"
proof -
  define s1 where "s1 = snd (CheckRateLimit ''10.0.0.1'' (100 * Second) (100 * Second)
                               (quietWorld, NewDownloadHandler))"
  have first: "fst (CheckRateLimit ''10.0.0.1'' (100 * Second) (100 * Second)
                      (quietWorld, NewDownloadHandler))"
    using CheckRateLimit_admits_iff
      [of "''10.0.0.1''" "100 * Second" "100 * Second" quietWorld NewDownloadHandler]
    by (simp add: NewDownloadHandler_def)
  have m1: "lastAccessMap (snd s1) ''10.0.0.1'' = Some (100 * Second)"
    using first CheckRateLimit_admits_iff
      [of "''10.0.0.1''" "100 * Second" "100 * Second" quietWorld NewDownloadHandler]
    by (simp add: s1_def)
  have second: "\<not> fst (CheckRateLimit ''10.0.0.1'' (103 * Second) (103 * Second) s1)"
    using m1 CheckRateLimit_admits_iff
      [of "''10.0.0.1''" "103 * Second" "103 * Second" "fst s1" "snd s1"]
    by (simp add: Second_def)
  have third: "fst (CheckRateLimit ''10.0.0.1'' (110 * Second) (110 * Second)
                 (snd (CheckRateLimit ''10.0.0.1'' (103 * Second) (103 * Second) s1)))"
    using second m1 CheckRateLimit_admits_iff
      [of "''10.0.0.1''" "103 * Second" "103 * Second" "fst s1" "snd s1"]
    by (simp add: Second_def)
  from first second third show ?thesis by (simp add: s1_def)
qed

section \<open>Properties of verification\<close>

text \<open>
  Claim C8. For every verify call whose \<open>computed_hash\<close> differs from the session's
  \<open>ExpectedHash\<close>, the answer is 400 "Hash mismatch" and nothing is mutated: the
  handler and the world (session entry, artifact, log) are returned as they were. So a
  transfer afterwards behaves as it would have before, and the verify can be repeated.
\<close>

theorem VerifyDownload_mismatch:
  "sessions h (SessionID req) = Some sess \<Longrightarrow> ComputedHash req \<noteq> ExpectedHash sess \<Longrightarrow>
     VerifyDownload (Some req) (w, h) = ((StatusBadRequest, PlainText ''Hash mismatch''), (w, h))
   \<and> DownloadData (SessionID req) startTime endTime delivered
        (snd (VerifyDownload (Some req) (w, h)))
      = DownloadData (SessionID req) startTime endTime delivered (w, h)
   \<and> VerifyDownload (Some req') (snd (VerifyDownload (Some req) (w, h)))
      = VerifyDownload (Some req') (w, h)"
  by (simp add: VerifyDownload_def)

theorem VerifyDownload_mismatch_witness:
  "sessions handlerA ''a'' = Some sessionA \<and> ''ffff'' \<noteq> ExpectedHash sessionA
   \<and> VerifyDownload (Some \<lparr>SessionID = ''a'', ComputedHash = ''ffff''\<rparr>) (worldA, handlerA)
       = ((StatusBadRequest, PlainText ''Hash mismatch''), (worldA, handlerA))
   \<and> fst (DownloadData ''a'' 0 Second True
        (snd (VerifyDownload (Some \<lparr>SessionID = ''a'', ComputedHash = ''ffff''\<rparr>)
               (worldA, handlerA))))
       = (StatusOK, Content (replicate (5 * 1024 * 1024) 0))"
proof -
  have s: "sessions handlerA (SessionID \<lparr>SessionID = ''a'', ComputedHash = ''ffff''\<rparr>) = Some sessionA"
    by (simp add: handlerA_def)
  have d: "ComputedHash \<lparr>SessionID = ''a'', ComputedHash = ''ffff''\<rparr> \<noteq> ExpectedHash sessionA"
    by (simp add: sessionA_def)
  have t: "fst (DownloadData ''a'' 0 Second True (worldA, handlerA))
             = (StatusOK, Content (replicate (5 * 1024 * 1024) 0))"
    by (simp add: DownloadData_def worldA_def handlerA_def sessionA_def quietWorld_def
        os_Open_def read_all_def Let_def)
  from VerifyDownload_mismatch[OF s d, where w = worldA and startTime = 0 and endTime = Second
      and delivered = True] s d t show ?thesis
    by simp
qed

text \<open>
  Claim C3. For every verify call whose \<open>computed_hash\<close> equals the session's
  \<open>ExpectedHash\<close>, the artifact is removed first and the session entry only after that
  succeeded: if \<open>os.Remove\<close> fails (the world refuses it, or the file is not there) the
  answer is 500 "File removal failed", the failure is logged and the handler, session
  entry included, is unchanged; otherwise the file is gone, the entry is deleted and the
  answer is 200 \<open>{status: success}\<close>.
\<close>

theorem VerifyDownload_match:
  "sessions h (SessionID req) = Some sess \<Longrightarrow> ComputedHash req = ExpectedHash sess \<Longrightarrow>
     VerifyDownload (Some req) (w, h) =
       (if remove_err w (FilePath sess) \<or> files w (FilePath sess) = None
        then ((StatusInternalServerError, PlainText ''File removal failed''),
              (log_Printf (LogErrorRemoving ErrRemove) w, h))
        else ((StatusOK, VerifyJSON ''success''),
              (w\<lparr>files := (files w)(FilePath sess := None)\<rparr>,
               h\<lparr>sessions := (sessions h)(SessionID req := None)\<rparr>)))"
  by (simp add: VerifyDownload_def os_Remove_def)

text \<open>
  The matching digest for session \<open>a\<close>: in \<open>worldB\<close> its artifact cannot be removed and
  the session stays; in \<open>worldA\<close> it can, and both are gone.
\<close>

theorem VerifyDownload_match_witness:
  "sessions handlerB ''a'' = Some sessionA \<and> ''ab12'' = ExpectedHash sessionA
   \<and> fst (VerifyDownload (Some \<lparr>SessionID = ''a'', ComputedHash = ''ab12''\<rparr>) (worldB, handlerB))
       = (StatusInternalServerError, PlainText ''File removal failed'')
   \<and> snd (snd (VerifyDownload (Some \<lparr>SessionID = ''a'', ComputedHash = ''ab12''\<rparr>)
                  (worldB, handlerB))) = handlerB
   \<and> files (fst (snd (VerifyDownload (Some \<lparr>SessionID = ''a'', ComputedHash = ''ab12''\<rparr>)
                  (worldB, handlerB)))) = files worldB
   \<and> fst (VerifyDownload (Some \<lparr>SessionID = ''a'', ComputedHash = ''ab12''\<rparr>) (worldA, handlerA))
       = (StatusOK, VerifyJSON ''success'')
   \<and> sessions (snd (snd (VerifyDownload (Some \<lparr>SessionID = ''a'', ComputedHash = ''ab12''\<rparr>)
                  (worldA, handlerA)))) ''a'' = None
   \<and> files (fst (snd (VerifyDownload (Some \<lparr>SessionID = ''a'', ComputedHash = ''ab12''\<rparr>)
                  (worldA, handlerA)))) ''tmpdata/a.bin'' = None"
proof -
  let ?req = "\<lparr>SessionID = ''a'', ComputedHash = ''ab12''\<rparr>"
  have sB: "sessions handlerB (SessionID ?req) = Some sessionA"
    by (simp add: handlerB_def)
  have sA: "sessions handlerA (SessionID ?req) = Some sessionA"
    by (simp add: handlerA_def)
  have d: "ComputedHash ?req = ExpectedHash sessionA"
    by (simp add: sessionA_def)
  have fB: "remove_err worldB (FilePath sessionA)"
    by (simp add: worldB_def sessionA_def)
  have fA: "\<not> remove_err worldA (FilePath sessionA)" "files worldA (FilePath sessionA) \<noteq> None"
    by (simp_all add: worldA_def quietWorld_def sessionA_def)
  have pA: "FilePath sessionA = ''tmpdata/a.bin''" by (simp add: sessionA_def)
  from VerifyDownload_match[OF sB d, where w = worldB] fB
  have B: "VerifyDownload (Some ?req) (worldB, handlerB) =
      ((StatusInternalServerError, PlainText ''File removal failed''),
       (log_Printf (LogErrorRemoving ErrRemove) worldB, handlerB))"
    by simp
  from VerifyDownload_match[OF sA d, where w = worldA] fA
  have A: "VerifyDownload (Some ?req) (worldA, handlerA) =
      ((StatusOK, VerifyJSON ''success''),
       (worldA\<lparr>files := (files worldA)(FilePath sessionA := None)\<rparr>,
        handlerA\<lparr>sessions := (sessions handlerA)(SessionID ?req := None)\<rparr>))"
    by simp
  show ?thesis
    unfolding A B using sB d by (simp add: log_Printf_def pA)
qed

section \<open>Properties of session lookup\<close>

text \<open>
  Claim C9, as amended. For every transfer or speed request whose \<open>session_id\<close> is
  not empty and matches no session in the store, the answer is 404 "Invalid session_id"
  and nothing changes. A missing (empty) \<open>session_id\<close> is answered with 400
  "session_id is required" by both operations.
\<close>

theorem unknown_session_not_found:
  "(sessionID \<noteq> [] \<longrightarrow> sessions h sessionID = None \<longrightarrow>
      DownloadData sessionID startTime endTime delivered (w, h) =
        ((StatusNotFound, PlainText ''Invalid session_id''), (w, h))
      \<and> GetSpeed sessionID (w, h) = (StatusNotFound, PlainText ''Invalid session_id''))
   \<and> DownloadData [] startTime endTime delivered (w, h) =
        ((StatusBadRequest, PlainText ''session_id is required''), (w, h))
   \<and> GetSpeed [] (w, h) = (StatusBadRequest, PlainText ''session_id is required'')"
  by (simp add: DownloadData_def GetSpeed_def)

theorem unknown_session_not_found_witness:
  "''zz'' \<noteq> [] \<and> sessions handlerA ''zz'' = None
   \<and> DownloadData ''zz'' 0 Second True (worldA, handlerA) =
        ((StatusNotFound, PlainText ''Invalid session_id''), (worldA, handlerA))
   \<and> GetSpeed ''zz'' (worldA, handlerA) = (StatusNotFound, PlainText ''Invalid session_id'')"
proof -
  have a: "''zz'' \<noteq> []" by simp
  have b: "sessions handlerA ''zz'' = None" by (simp add: handlerA_def)
  from unknown_session_not_found[where sessionID = "''zz''" and h = handlerA and startTime = 0
      and endTime = Second and delivered = True and w = worldA] a b
  show ?thesis by blast
qed

text \<open>
  The claim as stated fails for a missing id: both operations answer 400, not 404.
\<close>

theorem missing_session_id_counterexample:
  "fst (fst (DownloadData [] 0 Second True (quietWorld, NewDownloadHandler))) = StatusBadRequest
   \<and> fst (GetSpeed [] (quietWorld, NewDownloadHandler)) = StatusBadRequest
   \<and> StatusBadRequest \<noteq> StatusNotFound"
  by (simp add: DownloadData_def GetSpeed_def StatusBadRequest_def StatusNotFound_def)

section \<open>Properties of the transfer\<close>

text \<open>
  Claim C10. A transfer never consumes the session. For every session present in the
  store and every sequence of transfers of it (completed or not), the resulting state
  differs from the starting one only in that session's \<open>DownloadSpeedMbps\<close> and in the
  log: the entry is still there with the same file path, digest, algorithm, size and
  creation time, every other session, the rate limiter's map and the files are
  untouched. Hence one more transfer is answered exactly as it would have been at the
  start, however many transfers came before.
\<close>

theorem transfer_does_not_consume_session:
  assumes "sessions h sessionID = Some sess"
  shows "(\<exists>v l. transfers sessionID ts (w, h) =
            (w\<lparr>logged := l\<rparr>,
             h\<lparr>sessions := (sessions h)(sessionID \<mapsto> sess\<lparr>DownloadSpeedMbps := v\<rparr>)\<rparr>))
       \<and> fst (DownloadData sessionID startTime endTime delivered (transfers sessionID ts (w, h)))
         = fst (DownloadData sessionID startTime endTime delivered (w, h))"
proof -
  from transfers_frame[OF assms, where ts = ts and w = w] obtain v l where
    t: "transfers sessionID ts (w, h) =
          (w\<lparr>logged := l\<rparr>,
           h\<lparr>sessions := (sessions h)(sessionID \<mapsto> sess\<lparr>DownloadSpeedMbps := v\<rparr>)\<rparr>)"
    by blast
  have "h\<lparr>sessions := (sessions h)(sessionID \<mapsto> sess)\<rparr> = h"
    using assms by (simp add: fun_upd_idem)
  then have "fst (DownloadData sessionID startTime endTime delivered (transfers sessionID ts (w, h)))
         = fst (DownloadData sessionID startTime endTime delivered (w, h))"
    unfolding t using DownloadData_response_frame[where sid = sessionID and ?t0.0 = startTime and ?t1.0 = endTime
        and d = delivered and w = w and l = l and h = h and sess = sess and v = v]
    by simp
  with t show ?thesis by blast
qed

text \<open>
  Session \<open>a\<close> transferred three times (one second, zero time, aborted): the fourth
  transfer still delivers the 5 MiB artifact.
\<close>

theorem transfer_does_not_consume_session_witness:
  "sessions handlerA ''a'' = Some sessionA
   \<and> fst (DownloadData ''a'' (9 * Second) (10 * Second) True
          (transfers ''a'' [(0, Second, True), (2 * Second, 2 * Second, True),
                            (3 * Second, 4 * Second, False)] (worldA, handlerA)))
       = (StatusOK, Content (replicate (5 * 1024 * 1024) 0))"
proof -
  have s: "sessions handlerA ''a'' = Some sessionA" by (simp add: handlerA_def)
  have t: "fst (DownloadData ''a'' (9 * Second) (10 * Second) True (worldA, handlerA))
             = (StatusOK, Content (replicate (5 * 1024 * 1024) 0))"
    by (simp add: DownloadData_def worldA_def handlerA_def sessionA_def quietWorld_def
        os_Open_def read_all_def Let_def)
  from transfer_does_not_consume_session[OF s, where w = worldA and startTime = "9 * Second"
      and endTime = "10 * Second" and delivered = True
      and ts = "[(0, Second, True), (2 * Second, 2 * Second, True), (3 * Second, 4 * Second, False)]"]
    s t show ?thesis by simp
qed

text \<open>
  Claim C2, as amended. For every transfer of a session that is in the store and whose
  artifact opens, the session's measured speed is set to
  \<open>(sizeBytes * 8) / (elapsedSeconds * 1024 * 1024)\<close> as \<open>float64\<close> arithmetic
  evaluates it (every operation rounded to the nearest \<open>float64\<close>), for every elapsed
  time and whether or not the stream reached the client; nothing else in the handler
  changes. The write is skipped only when the request does not get as far as
  streaming: the id is empty or unknown, or the artifact cannot be opened.
\<close>

theorem DownloadData_stores_speed:
  "(sessions h sessionID = Some sess \<longrightarrow> sessionID \<noteq> [] \<longrightarrow>
      \<not> open_err w (FilePath sess) \<longrightarrow> files w (FilePath sess) \<noteq> None \<longrightarrow>
        snd (snd (DownloadData sessionID startTime endTime delivered (w, h))) =
          h\<lparr>sessions := (sessions h)(sessionID \<mapsto> sess\<lparr>DownloadSpeedMbps :=
               fdiv (fmul (float64_of_int (FileSize sess)) (Finite 8))
                    (fmul (fmul (Seconds (endTime - startTime)) (Finite 1024))
                          (Finite 1024))\<rparr>)\<rparr>)
   \<and> (sessionID = [] \<or> sessions h sessionID = None
        \<or> (\<exists>s. sessions h sessionID = Some s
               \<and> (open_err w (FilePath s) \<or> files w (FilePath s) = None)) \<longrightarrow>
        snd (snd (DownloadData sessionID startTime endTime delivered (w, h))) = h)"
  by (auto simp: DownloadData_def os_Open_def Let_def speedMbps_def log_Printf_def)

text \<open>
  Session \<open>a\<close>, 5 MiB: an aborted stream of one second stores 40 Mbps; a stream of
  three seconds stores the \<open>float64\<close> nearest to 40/3, which is 13.333333333333334.
\<close>

theorem DownloadData_stores_speed_witness:
  "sessions handlerA ''a'' = Some sessionA \<and> ''a'' \<noteq> [] \<and> \<not> open_err worldA (FilePath sessionA)
   \<and> files worldA (FilePath sessionA) \<noteq> None
   \<and> snd (snd (DownloadData ''a'' 0 Second False (worldA, handlerA)))
       = handlerA\<lparr>sessions := (sessions handlerA)(''a'' \<mapsto>
           sessionA\<lparr>DownloadSpeedMbps := Finite 40\<rparr>)\<rparr>
   \<and> snd (snd (DownloadData ''a'' Second (4 * Second) True (worldA, handlerA)))
       = handlerA\<lparr>sessions := (sessions handlerA)(''a'' \<mapsto>
           sessionA\<lparr>DownloadSpeedMbps := Finite (7505999378950827 / 562949953421312)\<rparr>)\<rparr>"
proof -
  have s: "sessions handlerA ''a'' = Some sessionA" by (simp add: handlerA_def)
  have n: "''a'' \<noteq> []" by simp
  have o: "\<not> open_err worldA (FilePath sessionA)" "files worldA (FilePath sessionA) \<noteq> None"
    by (simp_all add: worldA_def quietWorld_def sessionA_def)
  have v1: "fdiv (fmul (float64_of_int (FileSize sessionA)) (Finite 8))
              (fmul (fmul (Seconds (Second - 0)) (Finite 1024)) (Finite 1024)) = Finite 40"
    by (simp add: sessionA_def float_eval)
  have v3: "fdiv (fmul (float64_of_int (FileSize sessionA)) (Finite 8))
              (fmul (fmul (Seconds (4 * Second - Second)) (Finite 1024)) (Finite 1024))
            = Finite (7505999378950827 / 562949953421312)"
    by (simp add: sessionA_def float_eval)
  from DownloadData_stores_speed[where h = handlerA and sessionID = "''a''" and sess = sessionA
      and w = worldA and startTime = 0 and endTime = Second and delivered = False] s n o
  have one: "snd (snd (DownloadData ''a'' 0 Second False (worldA, handlerA)))
       = handlerA\<lparr>sessions := (sessions handlerA)(''a'' \<mapsto>
           sessionA\<lparr>DownloadSpeedMbps := Finite 40\<rparr>)\<rparr>"
    unfolding v1 by blast
  from DownloadData_stores_speed[where h = handlerA and sessionID = "''a''" and sess = sessionA
      and w = worldA and startTime = Second and endTime = "4 * Second" and delivered = True] s n o
  have three: "snd (snd (DownloadData ''a'' Second (4 * Second) True (worldA, handlerA)))
       = handlerA\<lparr>sessions := (sessions handlerA)(''a'' \<mapsto>
           sessionA\<lparr>DownloadSpeedMbps := Finite (7505999378950827 / 562949953421312)\<rparr>)\<rparr>"
    unfolding v3 by blast
  from s n o one three show ?thesis by blast
qed

text \<open>
  The claim as stated fails: with zero elapsed time the write is not skipped and the
  stored speed is \<open>+Inf\<close>; with a stream that did not reach the client the write is not
  skipped either.
\<close>

theorem DownloadData_zero_elapsed_counterexample:
  "sessions (snd (snd (DownloadData ''a'' (7 * Second) (7 * Second) True (worldA, handlerA)))) ''a''
     = Some (sessionA\<lparr>DownloadSpeedMbps := PosInf\<rparr>)
   \<and> DownloadSpeedMbps sessionA = Finite 0
   \<and> fst (DownloadData ''a'' 0 Second False (worldA, handlerA)) = (StatusOK, Aborted)
   \<and> sessions (snd (snd (DownloadData ''a'' 0 Second False (worldA, handlerA)))) ''a''
     = Some (sessionA\<lparr>DownloadSpeedMbps := Finite 40\<rparr>)"
  by (simp add: DownloadData_def worldA_def handlerA_def sessionA_def quietWorld_def os_Open_def
      read_all_def log_Printf_def float_eval)

section \<open>Properties of session initiation\<close>

text \<open>
  Claim C5, as amended. An initiate request is answered 400 exactly when the rate
  limiter admitted it and the body is malformed or its size selector is not an allowed
  one. Every such request creates no artifact (no file is created or written), registers
  no session, and leaves one trace in shared state: the rate limiter, which runs before
  the body is read, has set the client's timestamp to now.
\<close>

theorem InitDownload_invalid_input:
  "(fst (fst (InitDownload e ip reqBody (w, h))) = StatusBadRequest \<longleftrightarrow>
      fst (CheckRateLimit ip (clock_since e) (clock_update e) (w, h)) \<and>
      (reqBody = None \<or> (\<exists>req. reqBody = Some req \<and> allowedSizes (SizeMB req) = None)))
   \<and> (fst (fst (InitDownload e ip reqBody (w, h))) = StatusBadRequest \<longrightarrow>
        files (fst (snd (InitDownload e ip reqBody (w, h)))) = files w
      \<and> write_sizes (fst (snd (InitDownload e ip reqBody (w, h)))) = write_sizes w
      \<and> sessions (snd (snd (InitDownload e ip reqBody (w, h)))) = sessions h
      \<and> lastAccessMap (snd (snd (InitDownload e ip reqBody (w, h)))) =
          (lastAccessMap h)(ip \<mapsto> clock_update e))"
  by (auto simp: InitDownload_def CheckRateLimit_def log_Printf_def status_defs Let_def
           split: option.splits prod.splits sum.splits if_splits)

text \<open>A request for 7 MiB and a malformed body, each from a client not seen before.\<close>

theorem InitDownload_invalid_input_witness:
  "fst (fst (InitDownload envA ''10.0.0.1'' (Some \<lparr>SizeMB = 7\<rparr>) (worldA, handlerA)))
     = StatusBadRequest
   \<and> files (fst (snd (InitDownload envA ''10.0.0.1'' (Some \<lparr>SizeMB = 7\<rparr>) (worldA, handlerA))))
     = files worldA
   \<and> sessions (snd (snd (InitDownload envA ''10.0.0.1'' (Some \<lparr>SizeMB = 7\<rparr>) (worldA, handlerA))))
     = sessions handlerA
   \<and> lastAccessMap (snd (snd (InitDownload envA ''10.0.0.1'' (Some \<lparr>SizeMB = 7\<rparr>)
        (worldA, handlerA)))) = [''10.0.0.1'' \<mapsto> 100 * Second]
   \<and> fst (fst (InitDownload envA ''10.0.0.2'' None (worldA, handlerA))) = StatusBadRequest"
proof -
  have adm: "\<And>ip. fst (CheckRateLimit ip (clock_since envA) (clock_update envA) (worldA, handlerA))"
    by (simp add: CheckRateLimit_def handlerA_def)
  have bad: "allowedSizes (SizeMB \<lparr>SizeMB = 7\<rparr>) = None"
    by (simp add: allowedSizes_def)
  have m: "(lastAccessMap handlerA)(''10.0.0.1'' \<mapsto> clock_update envA)
             = [''10.0.0.1'' \<mapsto> 100 * Second]"
    by (simp add: handlerA_def envA_def)
  from InitDownload_invalid_input[where e = envA and ip = "''10.0.0.1''"
      and reqBody = "Some \<lparr>SizeMB = 7\<rparr>" and w = worldA and h = handlerA] adm bad
  have one: "fst (fst (InitDownload envA ''10.0.0.1'' (Some \<lparr>SizeMB = 7\<rparr>) (worldA, handlerA)))
       = StatusBadRequest
     \<and> files (fst (snd (InitDownload envA ''10.0.0.1'' (Some \<lparr>SizeMB = 7\<rparr>) (worldA, handlerA))))
       = files worldA
     \<and> sessions (snd (snd (InitDownload envA ''10.0.0.1'' (Some \<lparr>SizeMB = 7\<rparr>) (worldA, handlerA))))
       = sessions handlerA
     \<and> lastAccessMap (snd (snd (InitDownload envA ''10.0.0.1'' (Some \<lparr>SizeMB = 7\<rparr>)
          (worldA, handlerA)))) = (lastAccessMap handlerA)(''10.0.0.1'' \<mapsto> clock_update envA)"
    by blast
  from InitDownload_invalid_input[where e = envA and ip = "''10.0.0.2''"
      and reqBody = None and w = worldA and h = handlerA] adm
  have two: "fst (fst (InitDownload envA ''10.0.0.2'' None (worldA, handlerA))) = StatusBadRequest"
    by blast
  from one two show ?thesis unfolding m by blast
qed

text \<open>
  The claim as stated fails: the rejected request has changed the rate limiter's map,
  and the same client asking again three seconds later, now with a valid size, is
  refused with 429.
\<close>

theorem InitDownload_invalid_size_counterexample:
  "fst (fst (InitDownload envA ''10.0.0.1'' (Some \<lparr>SizeMB = 7\<rparr>) (quietWorld, NewDownloadHandler)))
     = StatusBadRequest
   \<and> lastAccessMap NewDownloadHandler ''10.0.0.1'' = None
   \<and> lastAccessMap (snd (snd (InitDownload envA ''10.0.0.1'' (Some \<lparr>SizeMB = 7\<rparr>)
        (quietWorld, NewDownloadHandler)))) ''10.0.0.1'' = Some (100 * Second)
   \<and> fst (fst (InitDownload
        (envA\<lparr>clock_since := 103 * Second, clock_update := 103 * Second\<rparr>)
        ''10.0.0.1'' (Some \<lparr>SizeMB = 5\<rparr>)
        (snd (InitDownload envA ''10.0.0.1'' (Some \<lparr>SizeMB = 7\<rparr>)
               (quietWorld, NewDownloadHandler))))) = StatusTooManyRequests"
  by (simp add: InitDownload_def CheckRateLimit_def log_Printf_def envA_def allowedSizes_def
      NewDownloadHandler_def quietWorld_def Second_def)

text \<open>
  Claim C7. For every allowed size selector \<open>sel\<close>: if the rate limiter admits the
  client and no create, write, open or read of the artifact fails, \<open>InitDownload\<close>
  answers 200; and whenever it answers 200, the artifact \<open>tmpdata/<id>.bin\<close> holds
  exactly \<open>sel * 1024 * 1024\<close> bytes, written by \<open>Write\<close> calls of at most 1 MiB each
  that add up to the file, the reported size is \<open>sel * 1024 * 1024\<close>, the reported
  algorithm is \<open>sha256\<close>, the reported digest is the hash of exactly those bytes, and
  the session registered under the returned id carries the same path, digest, algorithm
  and size with speed zero.
\<close>

theorem InitDownload_artifact_and_digest:
  assumes "allowedSizes sel = Some sz"
  shows "(fst (CheckRateLimit ip (clock_since e) (clock_update e) (w, h))
            \<and> no_faults w (''tmpdata/'' @ uuid_New e @ ''.bin'')
          \<longrightarrow> fst (fst (InitDownload e ip (Some \<lparr>SizeMB = sel\<rparr>) (w, h))) = StatusOK)
       \<and> (fst (fst (InitDownload e ip (Some \<lparr>SizeMB = sel\<rparr>) (w, h))) = StatusOK
          \<longrightarrow> (\<exists>content cs.
                int (length content) = sel * 1024 * 1024
              \<and> fst (InitDownload e ip (Some \<lparr>SizeMB = sel\<rparr>) (w, h))
                  = (StatusOK, InitJSON (uuid_New e) (sel * 1024 * 1024) ''sha256''
                                (sha256_hex e content))
              \<and> files (fst (snd (InitDownload e ip (Some \<lparr>SizeMB = sel\<rparr>) (w, h))))
                  = (files w)(''tmpdata/'' @ uuid_New e @ ''.bin'' \<mapsto> content)
              \<and> write_sizes (fst (snd (InitDownload e ip (Some \<lparr>SizeMB = sel\<rparr>) (w, h))))
                  = write_sizes w @ cs
              \<and> (\<forall>c\<in>set cs. 0 < c \<and> c \<le> 1024 * 1024) \<and> sum_list cs = length content
              \<and> sessions (snd (snd (InitDownload e ip (Some \<lparr>SizeMB = sel\<rparr>) (w, h)))) (uuid_New e)
                  = Some \<lparr>FilePath = ''tmpdata/'' @ uuid_New e @ ''.bin'',
                          ExpectedHash = sha256_hex e content, HashAlgorithm = ''sha256'',
                          FileSize = sel * 1024 * 1024, CreatedAt = clock_created e,
                          DownloadSpeedMbps = Finite 0\<rparr>))"
proof (intro conjI impI)
  assume "fst (CheckRateLimit ip (clock_since e) (clock_update e) (w, h))
            \<and> no_faults w (''tmpdata/'' @ uuid_New e @ ''.bin'')"
  then show "fst (fst (InitDownload e ip (Some \<lparr>SizeMB = sel\<rparr>) (w, h))) = StatusOK"
    using InitDownload_succeeds[where req = "\<lparr>SizeMB = sel\<rparr>" and sz = sz and e = e and ip = ip
        and w = w and h = h] assms
    by simp
next
  assume ok: "fst (fst (InitDownload e ip (Some \<lparr>SizeMB = sel\<rparr>) (w, h))) = StatusOK"
  from InitDownload_success_shape[OF ok] obtain req sz' content cs w1 h1 where
    req: "Some \<lparr>SizeMB = sel\<rparr> = Some req" and sz': "allowedSizes (SizeMB req) = Some sz'"
    and crl: "CheckRateLimit ip (clock_since e) (clock_update e) (w, h) = (True, w1, h1)"
    and len: "int (length content) = sz'"
    and cs: "\<forall>c\<in>set cs. 0 < c \<and> c \<le> 1024 * 1024" "sum_list cs = length content"
    and res: "InitDownload e ip (Some \<lparr>SizeMB = sel\<rparr>) (w, h) =
        ((StatusOK, InitJSON (uuid_New e) sz' ''sha256'' (sha256_hex e content)),
         (w1\<lparr>files := (files w1)(''tmpdata/'' @ uuid_New e @ ''.bin'' \<mapsto> content),
             write_sizes := write_sizes w1 @ cs\<rparr>,
          h1\<lparr>sessions := (sessions h1)(uuid_New e \<mapsto>
               \<lparr>FilePath = ''tmpdata/'' @ uuid_New e @ ''.bin'',
                ExpectedHash = sha256_hex e content, HashAlgorithm = ''sha256'',
                FileSize = sz', CreatedAt = clock_created e,
                DownloadSpeedMbps = Finite 0\<rparr>)\<rparr>))"
    by blast
  from req sz' assms have "sz' = sz" by auto
  with allowedSizes_Some[OF assms] have szv: "sz' = sel * 1024 * 1024" by simp
  have w1: "files w1 = files w" "write_sizes w1 = write_sizes w"
    using crl by (auto simp: CheckRateLimit_def log_Printf_def split: option.splits if_splits)
  show "\<exists>content cs.
                int (length content) = sel * 1024 * 1024
              \<and> fst (InitDownload e ip (Some \<lparr>SizeMB = sel\<rparr>) (w, h))
                  = (StatusOK, InitJSON (uuid_New e) (sel * 1024 * 1024) ''sha256''
                                (sha256_hex e content))
              \<and> files (fst (snd (InitDownload e ip (Some \<lparr>SizeMB = sel\<rparr>) (w, h))))
                  = (files w)(''tmpdata/'' @ uuid_New e @ ''.bin'' \<mapsto> content)
              \<and> write_sizes (fst (snd (InitDownload e ip (Some \<lparr>SizeMB = sel\<rparr>) (w, h))))
                  = write_sizes w @ cs
              \<and> (\<forall>c\<in>set cs. 0 < c \<and> c \<le> 1024 * 1024) \<and> sum_list cs = length content
              \<and> sessions (snd (snd (InitDownload e ip (Some \<lparr>SizeMB = sel\<rparr>) (w, h)))) (uuid_New e)
                  = Some \<lparr>FilePath = ''tmpdata/'' @ uuid_New e @ ''.bin'',
                          ExpectedHash = sha256_hex e content, HashAlgorithm = ''sha256'',
                          FileSize = sel * 1024 * 1024, CreatedAt = clock_created e,
                          DownloadSpeedMbps = Finite 0\<rparr>"
    apply (rule exI[of _ content], rule exI[of _ cs])
    unfolding res using len cs szv w1 by simp
qed

text \<open>
  A first request for 5 MiB in a world where nothing fails: 200, a file of 5242880 bytes
  under the new id, and the digest of that file in the answer.
\<close>

theorem InitDownload_artifact_and_digest_witness:
  "allowedSizes 5 = Some (5 * 1024 * 1024)
   \<and> fst (fst (InitDownload envA ''10.0.0.1'' (Some \<lparr>SizeMB = 5\<rparr>)
              (quietWorld, NewDownloadHandler))) = StatusOK
   \<and> (\<exists>content. length content = 5242880
        \<and> files (fst (snd (InitDownload envA ''10.0.0.1'' (Some \<lparr>SizeMB = 5\<rparr>)
              (quietWorld, NewDownloadHandler)))) ''tmpdata/u1.bin'' = Some content
        \<and> fst (InitDownload envA ''10.0.0.1'' (Some \<lparr>SizeMB = 5\<rparr>)
              (quietWorld, NewDownloadHandler))
            = (StatusOK, InitJSON ''u1'' 5242880 ''sha256'' (sha256_hex envA content)))"
proof -
  have a: "allowedSizes 5 = Some (5 * 1024 * 1024)"
    by (simp add: allowedSizes_def)
  have adm: "fst (CheckRateLimit ''10.0.0.1'' (clock_since envA) (clock_update envA)
                    (quietWorld, NewDownloadHandler))"
    by (simp add: CheckRateLimit_def NewDownloadHandler_def)
  have nf: "no_faults quietWorld (''tmpdata/'' @ uuid_New envA @ ''.bin'')"
    by (simp add: no_faults_def quietWorld_def)
  have u: "uuid_New envA = ''u1''" by (simp add: envA_def)
  note inst = InitDownload_artifact_and_digest[OF a, where e = envA and ip = "''10.0.0.1''"
      and w = quietWorld and h = NewDownloadHandler]
  from inst adm nf
  have ok: "fst (fst (InitDownload envA ''10.0.0.1'' (Some \<lparr>SizeMB = 5\<rparr>)
              (quietWorld, NewDownloadHandler))) = StatusOK"
    by blast
  with inst obtain content where
    len: "int (length content) = 5 * 1024 * 1024"
    and res: "fst (InitDownload envA ''10.0.0.1'' (Some \<lparr>SizeMB = 5\<rparr>)
                (quietWorld, NewDownloadHandler))
             = (StatusOK, InitJSON (uuid_New envA) (5 * 1024 * 1024) ''sha256''
                  (sha256_hex envA content))"
    and fl: "files (fst (snd (InitDownload envA ''10.0.0.1'' (Some \<lparr>SizeMB = 5\<rparr>)
                (quietWorld, NewDownloadHandler))))
             = (files quietWorld)(''tmpdata/'' @ uuid_New envA @ ''.bin'' \<mapsto> content)"
    by blast
  have "length content = 5242880" using len by simp
  moreover have "files (fst (snd (InitDownload envA ''10.0.0.1'' (Some \<lparr>SizeMB = 5\<rparr>)
              (quietWorld, NewDownloadHandler)))) ''tmpdata/u1.bin'' = Some content"
    unfolding fl u by simp
  moreover have "fst (InitDownload envA ''10.0.0.1'' (Some \<lparr>SizeMB = 5\<rparr>)
              (quietWorld, NewDownloadHandler))
            = (StatusOK, InitJSON ''u1'' 5242880 ''sha256'' (sha256_hex envA content))"
    unfolding res u by simp
  ultimately show ?thesis using a ok by blast
qed

section \<open>Properties of the cleanup sweep\<close>

text \<open>
  Claim C4, as amended. For every sweep over the keys of the store: the entry of every
  age-eligible session is removed and no other entry changes; the artifact of every
  age-eligible session is gone afterwards unless its removal is refused, and no other
  file changes. If deleting an age-eligible session's artifact fails, because the
  removal is refused or the artifact is missing, the failure is logged and is not
  fatal: the artifact is left as it was, that session's entry is removed from the store
  like the others, and the sweep goes on with the remaining keys. The last part holds at
  the moment the session is reached, whatever made \<open>os.Remove\<close> fail there: the run
  over \<open>pre @ k' # post\<close> equals the run over \<open>post\<close> from the state that has the two
  log lines added and the entry of \<open>k'\<close> removed.
\<close>

theorem cleanupTick_sweep:
  "sessions (snd (cleanupTick now keys (w, h))) k =
     (if k \<in> set keys \<and> expired now h k then None else sessions h k)
   \<and> files (fst (cleanupTick now keys (w, h))) p =
     (if (\<exists>k\<in>set keys. \<exists>sess. sessions h k = Some sess \<and> now - CreatedAt sess > Hour
            \<and> FilePath sess = p) \<and> \<not> remove_err w p
      then None else files w p)
   \<and> (k \<in> set keys \<longrightarrow> sessions h k = Some sess \<longrightarrow> now - CreatedAt sess > Hour \<longrightarrow>
        remove_err w (FilePath sess) \<or> files w (FilePath sess) = None \<longrightarrow>
          LogFailedToDelete (FilePath sess) ErrRemove
            \<in> set (logged (fst (cleanupTick now keys (w, h))))
        \<and> files (fst (cleanupTick now keys (w, h))) (FilePath sess) = files w (FilePath sess)
        \<and> sessions (snd (cleanupTick now keys (w, h))) k = None)
   \<and> (cleanupLoop now pre (w, h) = (w', h') \<longrightarrow> sessions h' k' = Some sess' \<longrightarrow>
        now - CreatedAt sess' > Hour \<longrightarrow>
        os_Remove (log_Printf (LogCleaningUp k') w') (FilePath sess') = Inl err \<longrightarrow>
          cleanupTick now (pre @ k' # post) (w, h) =
            cleanupLoop now post
              (log_Printf (LogFailedToDelete (FilePath sess') err)
                 (log_Printf (LogCleaningUp k') w'),
               h'\<lparr>sessions := (sessions h')(k' := None)\<rparr>)
        \<and> LogFailedToDelete (FilePath sess') err
            \<in> set (logged (fst (cleanupTick now (pre @ k' # post) (w, h)))))"
proof (intro conjI impI)
  show "sessions (snd (cleanupTick now keys (w, h))) k =
     (if k \<in> set keys \<and> expired now h k then None else sessions h k)"
    unfolding cleanupTick_def by (rule cleanupLoop_sessions)
  show "files (fst (cleanupTick now keys (w, h))) p =
     (if (\<exists>k\<in>set keys. \<exists>sess. sessions h k = Some sess \<and> now - CreatedAt sess > Hour
            \<and> FilePath sess = p) \<and> \<not> remove_err w p
      then None else files w p)"
    unfolding cleanupTick_def by (rule cleanupLoop_files)
next
  assume k: "k \<in> set keys" "sessions h k = Some sess" "now - CreatedAt sess > Hour"
    "remove_err w (FilePath sess) \<or> files w (FilePath sess) = None"
  then show "LogFailedToDelete (FilePath sess) ErrRemove
            \<in> set (logged (fst (cleanupTick now keys (w, h))))"
    unfolding cleanupTick_def by (rule cleanupLoop_failure_logged)
  show "files (fst (cleanupTick now keys (w, h))) (FilePath sess) = files w (FilePath sess)"
    unfolding cleanupTick_def cleanupLoop_files using k(4) by auto
  show "sessions (snd (cleanupTick now keys (w, h))) k = None"
    unfolding cleanupTick_def cleanupLoop_sessions using k by (simp add: expired_def)
next
  assume st: "cleanupLoop now pre (w, h) = (w', h')" "sessions h' k' = Some sess'"
    "now - CreatedAt sess' > Hour"
    "os_Remove (log_Printf (LogCleaningUp k') w') (FilePath sess') = Inl err"
  let ?w2 = "log_Printf (LogFailedToDelete (FilePath sess') err) (log_Printf (LogCleaningUp k') w')"
  let ?h2 = "h'\<lparr>sessions := (sessions h')(k' := None)\<rparr>"
  show eq: "cleanupTick now (pre @ k' # post) (w, h) = cleanupLoop now post (?w2, ?h2)"
    unfolding cleanupTick_def using st by (rule cleanupLoop_failed_step)
  have "LogFailedToDelete (FilePath sess') err \<in> set (logged ?w2)"
    by (simp add: log_Printf_def)
  with cleanupLoop_log_mono[of ?w2 now post ?h2]
  show "LogFailedToDelete (FilePath sess') err
            \<in> set (logged (fst (cleanupTick now (pre @ k' # post) (w, h))))"
    unfolding eq by blast
qed

text \<open>
  Two hours after \<open>a\<close> and \<open>b\<close> were created. In \<open>worldB\<close> the artifact of \<open>a\<close> cannot
  be removed: \<open>a\<close> is dropped from the store with its file left behind and the failure
  logged, \<open>b\<close> is dropped with its file, and \<open>c\<close>, half an hour old, stays. In \<open>worldC\<close>
  the artifact of \<open>a\<close> is missing: the failure is logged and \<open>a\<close> is dropped as well.
\<close>

theorem cleanupTick_sweep_witness:
  "''a'' \<in> set [''a'', ''b'', ''c''] \<and> sessions handlerB ''a'' = Some sessionA
   \<and> 2 * Hour - CreatedAt sessionA > Hour \<and> remove_err worldB (FilePath sessionA)
   \<and> LogFailedToDelete ''tmpdata/a.bin'' ErrRemove
        \<in> set (logged (fst (cleanupTick (2 * Hour) [''a'', ''b'', ''c''] (worldB, handlerB))))
   \<and> files (fst (cleanupTick (2 * Hour) [''a'', ''b'', ''c''] (worldB, handlerB))) ''tmpdata/a.bin''
       = files worldB ''tmpdata/a.bin''
   \<and> sessions (snd (cleanupTick (2 * Hour) [''a'', ''b'', ''c''] (worldB, handlerB))) ''a'' = None
   \<and> sessions (snd (cleanupTick (2 * Hour) [''a'', ''b'', ''c''] (worldB, handlerB))) ''b'' = None
   \<and> files (fst (cleanupTick (2 * Hour) [''a'', ''b'', ''c''] (worldB, handlerB))) ''tmpdata/b.bin''
       = None
   \<and> sessions (snd (cleanupTick (2 * Hour) [''a'', ''b'', ''c''] (worldB, handlerB))) ''c''
       = Some sessionC
   \<and> cleanupTick (2 * Hour) ([] @ ''a'' # [''b'', ''c'']) (worldB, handlerB) =
        cleanupLoop (2 * Hour) [''b'', ''c'']
          (log_Printf (LogFailedToDelete ''tmpdata/a.bin'' ErrRemove)
             (log_Printf (LogCleaningUp ''a'') worldB),
           handlerB\<lparr>sessions := (sessions handlerB)(''a'' := None)\<rparr>)
   \<and> files worldC (FilePath sessionA) = None
   \<and> LogFailedToDelete ''tmpdata/a.bin'' ErrRemove
        \<in> set (logged (fst (cleanupTick (2 * Hour) [''a'', ''b'', ''c''] (worldC, handlerB))))
   \<and> sessions (snd (cleanupTick (2 * Hour) [''a'', ''b'', ''c''] (worldC, handlerB))) ''a'' = None"
proof -
  let ?keys = "[''a'', ''b'', ''c'']"
  have ka: "''a'' \<in> set ?keys" by simp
  have sa: "sessions handlerB ''a'' = Some sessionA" by (simp add: handlerB_def)
  have ea: "2 * Hour - CreatedAt sessionA > Hour" by (simp add: sessionA_def Hour_def Second_def)
  have ra: "remove_err worldB (FilePath sessionA)" by (simp add: worldB_def sessionA_def)
  have mc: "files worldC (FilePath sessionA) = None"
    by (simp add: worldC_def quietWorld_def sessionA_def)
  have pa: "FilePath sessionA = ''tmpdata/a.bin''" by (simp add: sessionA_def)
  have eb: "expired (2 * Hour) handlerB ''b''"
    by (simp add: expired_def handlerB_def sessionB_def Hour_def Second_def)
  have ec: "\<not> expired (2 * Hour) handlerB ''c''"
    by (simp add: expired_def handlerB_def sessionC_def Hour_def Second_def)
  have sc: "sessions handlerB ''c'' = Some sessionC" by (simp add: handlerB_def)
  have fb: "(\<exists>k\<in>set ?keys. \<exists>sess. sessions handlerB k = Some sess
              \<and> 2 * Hour - CreatedAt sess > Hour \<and> FilePath sess = ''tmpdata/b.bin'')
            \<and> \<not> remove_err worldB ''tmpdata/b.bin''"
    by (simp add: handlerB_def sessionB_def worldB_def Hour_def Second_def)
  have pre: "cleanupLoop (2 * Hour) [] (worldB, handlerB) = (worldB, handlerB)" by simp
  have rm: "os_Remove (log_Printf (LogCleaningUp ''a'') worldB) (FilePath sessionA) = Inl ErrRemove"
    by (simp add: os_Remove_def log_Printf_def worldB_def sessionA_def)
  note instA = cleanupTick_sweep[where now = "2 * Hour" and keys = ?keys and w = worldB
      and h = handlerB and k = "''a''" and sess = sessionA and p = "''tmpdata/b.bin''"
      and pre = "[]" and w' = worldB and h' = handlerB and k' = "''a''" and sess' = sessionA
      and err = ErrRemove and post = "[''b'', ''c'']"]
  from instA ka sa ea ra
  have A: "LogFailedToDelete (FilePath sessionA) ErrRemove
        \<in> set (logged (fst (cleanupTick (2 * Hour) ?keys (worldB, handlerB))))"
    "files (fst (cleanupTick (2 * Hour) ?keys (worldB, handlerB))) (FilePath sessionA)
       = files worldB (FilePath sessionA)"
    "sessions (snd (cleanupTick (2 * Hour) ?keys (worldB, handlerB))) ''a'' = None"
    by blast+
  from instA
  have f: "files (fst (cleanupTick (2 * Hour) ?keys (worldB, handlerB))) ''tmpdata/b.bin'' =
     (if (\<exists>k\<in>set ?keys. \<exists>sess. sessions handlerB k = Some sess
            \<and> 2 * Hour - CreatedAt sess > Hour \<and> FilePath sess = ''tmpdata/b.bin'')
          \<and> \<not> remove_err worldB ''tmpdata/b.bin''
      then None else files worldB ''tmpdata/b.bin'')"
    by blast
  have A4: "files (fst (cleanupTick (2 * Hour) ?keys (worldB, handlerB))) ''tmpdata/b.bin'' = None"
    unfolding f by (rule if_P[OF fb])
  from instA pre sa ea rm
  have S: "cleanupTick (2 * Hour) ([] @ ''a'' # [''b'', ''c'']) (worldB, handlerB) =
        cleanupLoop (2 * Hour) [''b'', ''c'']
          (log_Printf (LogFailedToDelete (FilePath sessionA) ErrRemove)
             (log_Printf (LogCleaningUp ''a'') worldB),
           handlerB\<lparr>sessions := (sessions handlerB)(''a'' := None)\<rparr>)"
    by blast
  have kb: "''b'' \<in> set ?keys" and kc: "''c'' \<in> set ?keys" by simp_all
  from cleanupTick_sweep[where now = "2 * Hour" and keys = ?keys and w = worldB and h = handlerB
      and k = "''b''"]
  have "sessions (snd (cleanupTick (2 * Hour) ?keys (worldB, handlerB))) ''b'' =
     (if ''b'' \<in> set ?keys \<and> expired (2 * Hour) handlerB ''b'' then None
      else sessions handlerB ''b'')"
    by blast
  then have B: "sessions (snd (cleanupTick (2 * Hour) ?keys (worldB, handlerB))) ''b'' = None"
    using kb eb by (simp only: simp_thms if_True)
  from cleanupTick_sweep[where now = "2 * Hour" and keys = ?keys and w = worldB and h = handlerB
      and k = "''c''"]
  have "sessions (snd (cleanupTick (2 * Hour) ?keys (worldB, handlerB))) ''c'' =
     (if ''c'' \<in> set ?keys \<and> expired (2 * Hour) handlerB ''c'' then None
      else sessions handlerB ''c'')"
    by blast
  then have C: "sessions (snd (cleanupTick (2 * Hour) ?keys (worldB, handlerB))) ''c'' = Some sessionC"
    using kc ec sc by (simp only: simp_thms if_False)
  from cleanupTick_sweep[where now = "2 * Hour" and keys = ?keys and w = worldC
      and h = handlerB and k = "''a''" and sess = sessionA] ka sa ea mc
  have M: "LogFailedToDelete (FilePath sessionA) ErrRemove
        \<in> set (logged (fst (cleanupTick (2 * Hour) ?keys (worldC, handlerB))))"
    "sessions (snd (cleanupTick (2 * Hour) ?keys (worldC, handlerB))) ''a'' = None"
    by blast+
  from ka sa ea ra mc A[unfolded pa] A4 B C S[unfolded pa] M[unfolded pa] show ?thesis by blast
qed

text \<open>
  The claim as stated fails: the artifact of \<open>a\<close> cannot be removed, yet after the sweep
  its entry is not in the store any more, while the file is still on storage.
\<close>

theorem cleanupTick_failed_delete_counterexample:
  "expired (2 * Hour) handlerB ''a''
   \<and> os_Remove worldB ''tmpdata/a.bin'' = Inl ErrRemove
   \<and> sessions (snd (cleanupTick (2 * Hour) [''a'', ''b'', ''c''] (worldB, handlerB))) ''a'' = None
   \<and> files (fst (cleanupTick (2 * Hour) [''a'', ''b'', ''c''] (worldB, handlerB))) ''tmpdata/a.bin''
       = Some (replicate (5 * 1024 * 1024) 0)"
  by (simp add: cleanupTick_def expired_def handlerB_def worldB_def quietWorld_def sessionA_def
      sessionB_def sessionC_def os_Remove_def log_Printf_def Hour_def Second_def Let_def)

section \<open>Speed lookup after verification\<close>

text \<open>
  Claim C1. The claim asks that after a verify that answered \<open>success\<close> the speed
  lookup for that session still returns the measured speed. On the code it does not:
  whenever \<open>VerifyDownload\<close> answers 200 for a non-empty session id, the session was
  in the store and \<open>GetSpeed\<close> answered 200 with its stored speed just before, and
  \<open>GetSpeed\<close> for the same id answers 404 "Invalid session_id" just after, because the
  session entry that holds \<open>DownloadSpeedMbps\<close> has been deleted.
\<close>

theorem speed_lost_after_successful_verify:
  assumes "fst (fst (VerifyDownload (Some req) (w, h))) = StatusOK"
    and "SessionID req \<noteq> []"
  shows "(\<exists>sess. sessions h (SessionID req) = Some sess
            \<and> GetSpeed (SessionID req) (w, h)
                = (StatusOK, SpeedJSON (SessionID req) (DownloadSpeedMbps sess)))
       \<and> GetSpeed (SessionID req) (snd (VerifyDownload (Some req) (w, h)))
           = (StatusNotFound, PlainText ''Invalid session_id'')"
  using assms
  by (auto simp: VerifyDownload_def GetSpeed_def os_Remove_def status_defs
      split: option.splits if_splits)

text \<open>
  Session \<open>a\<close> after one transfer of one second: the speed lookup gives 40 Mbps, the
  verify with the expected digest succeeds, and the speed lookup then gives 404.
\<close>

theorem speed_lost_after_successful_verify_witness:
  "fst (fst (VerifyDownload (Some \<lparr>SessionID = ''a'', ComputedHash = ''ab12''\<rparr>)
          (snd (DownloadData ''a'' 0 Second True (worldA, handlerA))))) = StatusOK
   \<and> GetSpeed ''a'' (snd (DownloadData ''a'' 0 Second True (worldA, handlerA)))
       = (StatusOK, SpeedJSON ''a'' (Finite 40))
   \<and> GetSpeed ''a'' (snd (VerifyDownload (Some \<lparr>SessionID = ''a'', ComputedHash = ''ab12''\<rparr>)
          (snd (DownloadData ''a'' 0 Second True (worldA, handlerA)))))
       = (StatusNotFound, PlainText ''Invalid session_id'')"
proof -
  let ?req = "\<lparr>SessionID = ''a'', ComputedHash = ''ab12''\<rparr>"
  obtain w2 h2 where s2: "snd (DownloadData ''a'' 0 Second True (worldA, handlerA)) = (w2, h2)"
    by (metis prod.collapse)
  have ok: "fst (fst (VerifyDownload (Some ?req) (w2, h2))) = StatusOK"
    unfolding s2[symmetric]
    by (simp add: VerifyDownload_def DownloadData_def worldA_def handlerA_def sessionA_def
        quietWorld_def os_Open_def os_Remove_def read_all_def log_Printf_def Let_def)
  have ne: "SessionID ?req \<noteq> []" by simp
  have before: "GetSpeed ''a'' (w2, h2) = (StatusOK, SpeedJSON ''a'' (Finite 40))"
    unfolding s2[symmetric]
    by (simp add: GetSpeed_def DownloadData_def worldA_def handlerA_def sessionA_def
        quietWorld_def os_Open_def read_all_def log_Printf_def float_eval)
  from speed_lost_after_successful_verify[OF ok ne]
  have "GetSpeed ''a'' (snd (VerifyDownload (Some ?req) (w2, h2)))
          = (StatusNotFound, PlainText ''Invalid session_id'')"
    by simp
  with ok before show ?thesis unfolding s2 by blast
qed

end
